theory Spec2Isabelle
  imports Main "HOL-Library.Sublist"
begin

section \<open>Python text and path primitives used by the program\<close>

text \<open>
  Text is a list of characters with code points below 256. \<open>py_isspace\<close> is Python's
  \<open>str.isspace\<close> on one character of that range.
\<close>

definition py_isspace :: "char \<Rightarrow> bool" where
  "py_isspace c =
     (let n = (of_char c :: nat)
      in (9 \<le> n \<and> n \<le> 13) \<or> (28 \<le> n \<and> n \<le> 32) \<or> n = 133 \<or> n = 160)"

definition py_strip :: "string \<Rightarrow> string" where
  \<comment> \<open>\<open>s.strip()\<close>\<close>
  "py_strip s = rev (dropWhile py_isspace (rev (dropWhile py_isspace s)))"

fun py_split_on :: "char \<Rightarrow> string \<Rightarrow> string list" where
  \<comment> \<open>\<open>s.split(c)\<close> for a one-character separator: never the empty list\<close>
  "py_split_on c [] = [[]]"
| "py_split_on c (x # xs) =
     (if x = c then [] # py_split_on c xs
      else (case py_split_on c xs of
              [] \<Rightarrow> [[x]]
            | y # ys \<Rightarrow> (x # y) # ys))"

fun py_split_acc :: "string \<Rightarrow> string \<Rightarrow> string list" where
  "py_split_acc acc [] = (if acc = [] then [] else [acc])"
| "py_split_acc acc (c # cs) =
     (if py_isspace c
      then (if acc = [] then py_split_acc [] cs else acc # py_split_acc [] cs)
      else py_split_acc (acc @ [c]) cs)"

definition py_split :: "string \<Rightarrow> string list" where
  \<comment> \<open>\<open>s.split()\<close>: fields separated by runs of whitespace, no empty field\<close>
  "py_split s = py_split_acc [] s"

fun py_join :: "string \<Rightarrow> string list \<Rightarrow> string" where
  \<comment> \<open>\<open>sep.join(xs)\<close>\<close>
  "py_join sep [] = []"
| "py_join sep [x] = x"
| "py_join sep (x # y # ys) = x @ sep @ py_join sep (y # ys)"

definition os_path_join :: "string \<Rightarrow> string \<Rightarrow> string" where
  \<comment> \<open>\<open>posixpath.join(a, b)\<close>: an absolute \<open>b\<close> replaces \<open>a\<close>\<close>
  "os_path_join a b =
     (if b \<noteq> [] \<and> hd b = CHR ''/'' then b
      else if a = [] \<or> last a = CHR ''/'' then a @ b
      else a @ ''/'' @ b)"

definition sq :: string where
  \<comment> \<open>the single quote\<close>
  "sq = [CHR 0x27]"

definition dq :: string where
  \<comment> \<open>the double quote\<close>
  "dq = [CHR 0x22]"

definition py_linebreak :: "char \<Rightarrow> bool" where
  \<comment> \<open>the line boundaries of \<open>str.splitlines\<close> below code point 256\<close>
  "py_linebreak c =
     (let n = (of_char c :: nat)
      in (10 \<le> n \<and> n \<le> 13) \<or> (28 \<le> n \<and> n \<le> 30) \<or> n = 133)"

fun py_splitlines_acc :: "string \<Rightarrow> string \<Rightarrow> string list" where
  "py_splitlines_acc acc [] = (if acc = [] then [] else [acc])"
| "py_splitlines_acc acc [c] =
     (if py_linebreak c then [acc] else [acc @ [c]])"
| "py_splitlines_acc acc (c # d # cs) =
     (if c = CHR 0x0D \<and> d = CHR 0x0A then acc # py_splitlines_acc [] cs
      else if py_linebreak c then acc # py_splitlines_acc [] (d # cs)
      else py_splitlines_acc (acc @ [c]) (d # cs))"

definition py_splitlines :: "string \<Rightarrow> string list" where
  \<comment> \<open>\<open>s.splitlines()\<close>\<close>
  "py_splitlines s = py_splitlines_acc [] s"

fun py_in :: "string \<Rightarrow> string \<Rightarrow> bool" where
  \<comment> \<open>\<open>sub in s\<close>\<close>
  "py_in sub [] = (sub = [])"
| "py_in sub (c # cs) = (prefix sub (c # cs) \<or> py_in sub cs)"

section \<open>Configuration\<close>

text \<open>
  One server's settings dictionary. A key that is absent is \<open>None\<close>; the empty dictionary
  \<open>{}\<close> is \<open>empty_config\<close>.
\<close>

record server_config =
  cfg_name :: "string option"
  cfg_schedule :: "string option"
  cfg_shutdown :: "bool option"
  cfg_ignore_paths :: "string list option"

definition empty_config :: server_config where
  "empty_config =
     \<lparr>cfg_name = None, cfg_schedule = None, cfg_shutdown = None, cfg_ignore_paths = None\<rparr>"

definition get_shutdown :: "server_config \<Rightarrow> bool" where
  \<comment> \<open>\<open>config.get("shutdown", False)\<close>\<close>
  "get_shutdown config = (case cfg_shutdown config of None \<Rightarrow> False | Some b \<Rightarrow> b)"

definition get_ignore_paths :: "server_config \<Rightarrow> string list" where
  \<comment> \<open>\<open>config.get("ignore_paths", [])\<close>\<close>
  "get_ignore_paths config = (case cfg_ignore_paths config of None \<Rightarrow> [] | Some ps \<Rightarrow> ps)"

section \<open>The backup command line\<close>

text \<open>
  Lines 160 to 177 of \<open>backup_server\<close>: the exclude arguments and the argument list
  \<open>cmd\<close>. The repository and the namespace are the module constants
  \<open>PBS_REPOSITORY\<close> and \<open>PBS_NAMESPACE\<close>, read from the configuration at start-up.
\<close>

fun exclude_args :: "string \<Rightarrow> string list \<Rightarrow> string list" where
  "exclude_args container_path [] = []"
| "exclude_args container_path (rel_path # rest) =
     [''--exclude'', os_path_join container_path rel_path] @ exclude_args container_path rest"

definition backup_cmd :: "string \<Rightarrow> string \<Rightarrow> string \<Rightarrow> string \<Rightarrow> server_config \<Rightarrow> string list" where
  "backup_cmd repository namespace server_id container_path config =
     [''proxmox-backup-client'', ''backup'',
      dq @ server_id @ ''.pxar:'' @ container_path @ dq,
      ''--repository'', sq @ repository @ sq,
      ''--ns'', namespace,
      ''--backup-type'', ''host'',
      ''--change-detection-mode'', ''metadata'',
      ''--backup-id'', server_id]
     @ exclude_args container_path (get_ignore_paths config)"


section \<open>The world outside the program\<close>

text \<open>
  The program talks to the operating system through \<open>glob.glob\<close>, \<open>subprocess\<close> and the
  file functions of \<open>os\<close> and \<open>shutil\<close>. Every such call is recorded, with its answer, as
  one event of a history; the answers of the outside world are functions of the history so
  far, so that a later call may be answered differently from an earlier one. Log records
  are not modelled.

  A process is started either from one string handed to the shell (\<open>shell=True\<close>) or from
  an argument vector; \<open>cmdline\<close> keeps the two apart.

  The calls of \<open>subprocess\<close> can raise exceptions that the program does not catch
  (\<open>OSError\<close> when the process cannot be started, \<open>UnicodeDecodeError\<close> when its output
  is not text): \<open>CheckRaised\<close>, \<open>RunRaised\<close> and \<open>PopenRaised\<close>. The two exceptions that
  the program does catch are answers of their own: \<open>CalledProcessError\<close> is a non-zero
  exit status, \<open>TimeoutExpired\<close> is \<open>TimedOut\<close>.
\<close>

datatype cmdline = ShellString string | ArgVector "string list"

datatype check_result = Output int string | CheckRaised
  \<comment> \<open>\<open>subprocess.check_output\<close>: exit status and stdout; or an uncaught exception\<close>

datatype run_result = Exited int | TimedOut | RunRaised
  \<comment> \<open>\<open>subprocess.run\<close>: the exit status, \<open>TimeoutExpired\<close>, or an uncaught exception\<close>

datatype popen_result = PopenExit int string string | PopenRaised
  \<comment> \<open>\<open>Popen\<close> and \<open>communicate\<close>: exit status, stdout, stderr; or an exception\<close>

datatype event =
    EGlob string "string list"
  | ECheckOutput cmdline check_result
  | ERun cmdline run_result
  | EPopen cmdline popen_result
  | EListdir string "string list option"
  | EUnlink string bool
  | ERmtree string bool

type_synonym history = "event list"

record world =
  volumes_path :: string
  pbs_repository :: string
  pbs_namespace :: string
  glob_glob :: "history \<Rightarrow> string \<Rightarrow> string list"
  check_output :: "history \<Rightarrow> string \<Rightarrow> check_result"
  subprocess_run :: "history \<Rightarrow> string \<Rightarrow> run_result"
  popen_communicate :: "history \<Rightarrow> string \<Rightarrow> popen_result"

datatype 'a outcome = Returned 'a | Raised
  \<comment> \<open>a call returns a value or lets an exception escape to its caller\<close>

section \<open>Resolution and container control\<close>

datatype value_error = NoDirectoryFound | MultipleDirectoriesFound
  \<comment> \<open>the two \<open>ValueError\<close> messages of \<open>get_container_path\<close>\<close>

definition get_container_path ::
  "world \<Rightarrow> string \<Rightarrow> history \<Rightarrow> (value_error + string) \<times> history" where
  "get_container_path w server_id h =
     (let pattern = volumes_path w @ ''/'' @ server_id @ ''*'';
          matches = glob_glob w h pattern;
          h' = h @ [EGlob pattern matches]
      in if length matches > 1 then (Inl MultipleDirectoriesFound, h')
         else if length matches = 0 then (Inl NoDirectoryFound, h')
         else (Inr (matches ! 0), h'))"

definition run_command :: "world \<Rightarrow> string \<Rightarrow> history \<Rightarrow> bool outcome \<times> history" where
  \<comment> \<open>\<open>check=True\<close>: a non-zero exit status raises \<open>CalledProcessError\<close>, caught at line
      101; \<open>TimeoutExpired\<close> is caught at line 98; nothing else is caught\<close>
  "run_command w cmd h =
     (let r = subprocess_run w h cmd;
          h' = h @ [ERun (ShellString cmd) r]
      in case r of
           Exited rc \<Rightarrow> (Returned (rc = 0), h')
         | TimedOut \<Rightarrow> (Returned False, h')
         | RunRaised \<Rightarrow> (Raised, h'))"

definition list_containers_cmd :: "string \<Rightarrow> string" where
  \<comment> \<open>line 115: every container, running or not\<close>
  "list_containers_cmd server_id =
     ''docker ps -a --format '' @ sq @ ''{{.Names}}'' @ sq @ '' | grep '' @ sq @ ''^''
       @ server_id @ sq"

definition running_containers_cmd :: "string \<Rightarrow> string" where
  \<comment> \<open>line 147: running containers only\<close>
  "running_containers_cmd server_id =
     ''docker ps --format '' @ sq @ ''{{.Names}}'' @ sq @ '' | grep '' @ sq @ ''^''
       @ server_id @ sq"

definition manage_container ::
  "world \<Rightarrow> string \<Rightarrow> string \<Rightarrow> history \<Rightarrow> bool outcome \<times> history" where
  \<comment> \<open>line 126 catches \<open>CalledProcessError\<close> only\<close>
  "manage_container w server_id action h =
     (let cmd = list_containers_cmd server_id;
          answer = check_output w h cmd;
          h' = h @ [ECheckOutput (ShellString cmd) answer]
      in case answer of
           CheckRaised \<Rightarrow> (Raised, h')
         | Output rc out \<Rightarrow>
             if rc \<noteq> 0 then (Returned False, h')
             else
               (let containers = py_split_on CHR 0x0A (py_strip out)
                in if containers = [] \<or> containers = [[]] then (Returned False, h')
                   else if length containers > 1 then (Returned False, h')
                   else run_command w (''docker '' @ action @ '' '' @ containers ! 0) h'))"

section \<open>Backup\<close>

definition stop_if_running ::
  "world \<Rightarrow> string \<Rightarrow> server_config \<Rightarrow> history \<Rightarrow> (bool \<times> bool) outcome \<times> history" where
  \<comment> \<open>lines 143 to 157; a result is (may go on, \<open>container_was_running\<close>); line 155
      catches \<open>CalledProcessError\<close> only, and this block is not inside the
      \<open>try\<close> of line 159\<close>
  "stop_if_running w server_id config h =
     (if get_shutdown config then
        (let cmd = running_containers_cmd server_id;
             answer = check_output w h cmd;
             h' = h @ [ECheckOutput (ShellString cmd) answer]
         in case answer of
              CheckRaised \<Rightarrow> (Raised, h')
            | Output rc out \<Rightarrow>
                if rc \<noteq> 0 then (Returned (True, False), h')
                else if py_strip out \<noteq> [] then
                  (case manage_container w server_id ''stop'' h' of
                     (Raised, h'') \<Rightarrow> (Raised, h'')
                   | (Returned stopped, h'') \<Rightarrow> (Returned (stopped, True), h''))
                else (Returned (True, False), h'))
      else (Returned (True, False), h))"

definition popen_outcome :: "popen_result \<Rightarrow> bool outcome" where
  \<comment> \<open>lines 180 to 196: \<open>success = process.returncode == 0\<close>, returned\<close>
  "popen_outcome r =
     (case r of PopenExit returncode out err \<Rightarrow> Returned (returncode = 0)
              | PopenRaised \<Rightarrow> Raised)"

definition backup_server ::
  "world \<Rightarrow> string \<Rightarrow> server_config \<Rightarrow> history \<Rightarrow> bool outcome \<times> history" where
  \<comment> \<open>an exception raised inside \<open>finally\<close> replaces the pending result\<close>
  "backup_server w server_id config h =
     (case get_container_path w server_id h of
        (Inl e, h1) \<Rightarrow> (Returned False, h1)
      | (Inr container_path, h1) \<Rightarrow>
          (case stop_if_running w server_id config h1 of
             (Raised, h2) \<Rightarrow> (Raised, h2)
           | (Returned (False, container_was_running), h2) \<Rightarrow> (Returned False, h2)
           | (Returned (True, container_was_running), h2) \<Rightarrow>
               (let cmd = py_join '' ''
                            (backup_cmd (pbs_repository w) (pbs_namespace w)
                               server_id container_path config);
                    r = popen_communicate w h2 cmd;
                    h3 = h2 @ [EPopen (ShellString cmd) r]
                in if get_shutdown config \<and> container_was_running
                   then (case manage_container w server_id ''start'' h3 of
                           (Raised, h4) \<Rightarrow> (Raised, h4)
                         | (Returned started, h4) \<Rightarrow> (popen_outcome r, h4))
                   else (popen_outcome r, h3))))"

section \<open>Restore\<close>

text \<open>
  The entries directly under a directory: \<open>File\<close> is a regular file, \<open>Dir\<close> a
  directory, \<open>Link t\<close> a symbolic link to the entry named \<open>t\<close> of the same directory,
  \<open>Other\<close> anything else (a FIFO, a socket, a device node). \<open>os.path.isfile\<close> and
  \<open>os.path.isdir\<close> follow links, at most \<open>symlink_limit\<close> of them, in the directory as
  it is when they are called: a link whose target is gone is neither a file nor a
  directory. \<open>removable\<close> says whether the operating system lets the entry go;
  \<open>os.unlink\<close> removes a file or a link itself, \<open>shutil.rmtree\<close> removes a directory
  and raises on a link. When a removal raises, the entry stays. A directory that cannot
  be listed is \<open>None\<close>.
\<close>

datatype kind = File | Dir | Link string | Other

record node =
  nname :: string
  nkind :: kind
  removable :: bool

type_synonym filesystem = "string \<Rightarrow> node list option"

definition symlink_limit :: nat where
  "symlink_limit = 40"

fun path_kind :: "nat \<Rightarrow> node list \<Rightarrow> string \<Rightarrow> kind option" where
  "path_kind fuel ns name =
     (case find (\<lambda>n. nname n = name) ns of
        None \<Rightarrow> None
      | Some n \<Rightarrow>
          (case nkind n of
             Link target \<Rightarrow> (case fuel of 0 \<Rightarrow> None | Suc k \<Rightarrow> path_kind k ns target)
           | k \<Rightarrow> Some k))"

definition os_listdir :: "filesystem \<Rightarrow> string \<Rightarrow> string list option" where
  "os_listdir fs d = map_option (map nname) (fs d)"

definition lookup_node :: "filesystem \<Rightarrow> string \<Rightarrow> string \<Rightarrow> node option" where
  "lookup_node fs d item =
     (case fs d of None \<Rightarrow> None | Some ns \<Rightarrow> find (\<lambda>n. nname n = item) ns)"

definition os_path_isfile :: "filesystem \<Rightarrow> string \<Rightarrow> string \<Rightarrow> bool" where
  "os_path_isfile fs d item =
     (case fs d of None \<Rightarrow> False | Some ns \<Rightarrow> path_kind symlink_limit ns item = Some File)"

definition os_path_isdir :: "filesystem \<Rightarrow> string \<Rightarrow> string \<Rightarrow> bool" where
  "os_path_isdir fs d item =
     (case fs d of None \<Rightarrow> False | Some ns \<Rightarrow> path_kind symlink_limit ns item = Some Dir)"

definition unlink_succeeds :: "filesystem \<Rightarrow> string \<Rightarrow> string \<Rightarrow> bool" where
  "unlink_succeeds fs d item =
     (case lookup_node fs d item of None \<Rightarrow> False | Some n \<Rightarrow> removable n)"

definition rmtree_succeeds :: "filesystem \<Rightarrow> string \<Rightarrow> string \<Rightarrow> bool" where
  "rmtree_succeeds fs d item =
     (case lookup_node fs d item of
        None \<Rightarrow> False
      | Some n \<Rightarrow> (case nkind n of Link target \<Rightarrow> False | k \<Rightarrow> removable n))"

definition remove_entry :: "filesystem \<Rightarrow> string \<Rightarrow> string \<Rightarrow> filesystem" where
  "remove_entry fs d item = fs(d := map_option (filter (\<lambda>n. nname n \<noteq> item)) (fs d))"

fun delete_contents ::
  "string \<Rightarrow> string list \<Rightarrow> filesystem \<Rightarrow> history \<Rightarrow> bool \<times> filesystem \<times> history" where
  \<comment> \<open>the loop of lines 224 to 233 over the names listed before it starts; \<open>False\<close> is
      the \<open>return False\<close> of line 233\<close>
  "delete_contents container_path [] fs h = (True, fs, h)"
| "delete_contents container_path (item # items) fs h =
     (let item_path = os_path_join container_path item
      in if os_path_isfile fs container_path item then
           (if unlink_succeeds fs container_path item
            then delete_contents container_path items
                   (remove_entry fs container_path item) (h @ [EUnlink item_path True])
            else (False, fs, h @ [EUnlink item_path False]))
         else if os_path_isdir fs container_path item then
           (if rmtree_succeeds fs container_path item
            then delete_contents container_path items
                   (remove_entry fs container_path item) (h @ [ERmtree item_path True])
            else (False, fs, h @ [ERmtree item_path False]))
         else delete_contents container_path items fs h)"

definition restore_cmd :: "string \<Rightarrow> string \<Rightarrow> string \<Rightarrow> string \<Rightarrow> string \<Rightarrow> string list" where
  "restore_cmd repository namespace server_id snapshot_name container_path =
     [''proxmox-backup-client'', ''restore'',
      snapshot_name,
      dq @ server_id @ ''.ppxar'' @ dq,
      dq @ container_path @ dq,
      ''--repository'', sq @ repository @ sq,
      ''--ns'', namespace]"

definition restore_server ::
  "world \<Rightarrow> string \<Rightarrow> string \<Rightarrow> filesystem \<Rightarrow> history
     \<Rightarrow> bool outcome \<times> filesystem \<times> history" where
  "restore_server w server_id snapshot_name fs h =
     (case get_container_path w server_id h of
        (Inl e, h1) \<Rightarrow> (Returned False, fs, h1)
      | (Inr container_path, h1) \<Rightarrow>
          (case manage_container w server_id ''kill'' h1 of
             (Raised, h2) \<Rightarrow> (Raised, fs, h2)
           | (Returned False, h2) \<Rightarrow> (Returned False, fs, h2)
           | (Returned True, h2) \<Rightarrow>
               (case os_listdir fs container_path of
                  None \<Rightarrow> (Raised, fs, h2 @ [EListdir container_path None])
                | Some items \<Rightarrow>
                    (case delete_contents container_path items fs
                            (h2 @ [EListdir container_path (Some items)]) of
                       (False, fs', h3) \<Rightarrow> (Returned False, fs', h3)
                     | (True, fs', h3) \<Rightarrow>
                         (let cmd = py_join '' ''
                                      (restore_cmd (pbs_repository w) (pbs_namespace w)
                                         server_id snapshot_name container_path);
                              (result, h4) = run_command w cmd h3
                          in (result, fs', h4))))))"

section \<open>Snapshots\<close>

definition snapshots_cmd :: "string \<Rightarrow> string \<Rightarrow> string list" where
  "snapshots_cmd repository namespace =
     [''proxmox-backup-client'', ''snapshots'',
      ''--repository'', sq @ repository @ sq,
      ''--ns'', namespace]"

definition list_snapshots :: "world \<Rightarrow> string \<Rightarrow> history \<Rightarrow> string list outcome \<times> history" where
  "list_snapshots w server_id h =
     (let cmd = py_join '' '' (snapshots_cmd (pbs_repository w) (pbs_namespace w));
          r = popen_communicate w h cmd;
          h' = h @ [EPopen (ShellString cmd) r]
      in case r of
           PopenRaised \<Rightarrow> (Raised, h')
         | PopenExit returncode out err \<Rightarrow>
             if returncode \<noteq> 0 then (Returned [], h')
             else (Returned (map py_strip (filter (py_in server_id) (py_splitlines out))), h'))"

section \<open>Scheduler\<close>

text \<open>
  \<open>CronTrigger\<close> belongs to the scheduling library: it raises \<open>ValueError\<close> on field
  values it rejects. Its verdict is the parameter \<open>trigger_ok\<close>. A scheduler that has not
  been started keeps the jobs added to it in a list.
\<close>

record cron_trigger =
  minute :: string
  hour :: string
  day :: string
  month :: string
  day_of_week :: string

record job =
  job_id :: string
  job_name :: string
  job_args :: "string \<times> server_config"
  job_trigger :: cron_trigger
  misfire_grace_time :: nat

fun schedule_jobs ::
  "(cron_trigger \<Rightarrow> bool) \<Rightarrow> (string \<times> server_config) list \<Rightarrow> job list \<Rightarrow> job list" where
  "schedule_jobs trigger_ok [] scheduler = scheduler"
| "schedule_jobs trigger_ok ((server_id, settings) # rest) scheduler =
     (case cfg_schedule settings of
        None \<Rightarrow> schedule_jobs trigger_ok rest scheduler
      | Some schedule \<Rightarrow>
          (let cron_expr = py_split schedule
           in if length cron_expr \<noteq> 5 then schedule_jobs trigger_ok rest scheduler
              else
                (let trigger = \<lparr>minute = cron_expr ! 0, hour = cron_expr ! 1,
                                day = cron_expr ! 2, month = cron_expr ! 3,
                                day_of_week = cron_expr ! 4\<rparr>
                 in if \<not> trigger_ok trigger then schedule_jobs trigger_ok rest scheduler
                    else schedule_jobs trigger_ok rest
                           (scheduler @
                              [\<lparr>job_id = server_id, job_name = ''Backup '' @ server_id,
                                job_args = (server_id, settings), job_trigger = trigger,
                                misfire_grace_time = 3600\<rparr>]))))"

section \<open>One-shot backup from the command line\<close>

datatype exit_status = Exit nat | Uncaught
  \<comment> \<open>\<open>sys.exit(n)\<close>, or an exception that nothing catches\<close>

definition main_backup ::
  "world \<Rightarrow> (string \<times> server_config) list \<Rightarrow> string option \<Rightarrow> bool \<Rightarrow> history
     \<Rightarrow> exit_status \<times> history" where
  \<comment> \<open>the block \<open>if args.backup:\<close> of \<open>main\<close>, lines 336 to 351\<close>
  "main_backup w servers arg_server_id arg_shutdown h =
     (case arg_server_id of
        None \<Rightarrow> (Exit 1, h)
      | Some server_id \<Rightarrow>
          if server_id = [] then (Exit 1, h)
          else
            (let found = (case map_of servers server_id of
                            None \<Rightarrow> empty_config
                          | Some c \<Rightarrow> c);
                 server_config = (if arg_shutdown then found\<lparr>cfg_shutdown := Some True\<rparr>
                                  else found)
             in case backup_server w server_id server_config h of
                  (Returned True, h') \<Rightarrow> (Exit 0, h')
                | (Returned False, h') \<Rightarrow> (Exit 1, h')
                | (Raised, h') \<Rightarrow> (Uncaught, h')))"


section \<open>Vocabulary of the properties\<close>

text \<open>
  \<open>observed_running\<close> is the test of lines 149 and 150: the query for running containers
  exits with status zero and prints something other than whitespace;
  \<open>observed_stopped\<close> is its other answer, by a non-zero exit status (line 155) or by
  empty output. \<open>after_running_query\<close> is the history once that query has been made.
\<close>

definition observed_running :: "world \<Rightarrow> string \<Rightarrow> history \<Rightarrow> bool" where
  "observed_running w server_id h =
     (case check_output w h (running_containers_cmd server_id) of
        Output rc out \<Rightarrow> rc = 0 \<and> py_strip out \<noteq> []
      | CheckRaised \<Rightarrow> False)"

definition observed_stopped :: "world \<Rightarrow> string \<Rightarrow> history \<Rightarrow> bool" where
  "observed_stopped w server_id h =
     (case check_output w h (running_containers_cmd server_id) of
        Output rc out \<Rightarrow> rc \<noteq> 0 \<or> py_strip out = []
      | CheckRaised \<Rightarrow> False)"

definition after_running_query :: "world \<Rightarrow> string \<Rightarrow> history \<Rightarrow> history" where
  "after_running_query w server_id h =
     h @ [ECheckOutput (ShellString (running_containers_cmd server_id))
            (check_output w h (running_containers_cmd server_id))]"

text \<open>
  The name that \<open>manage_container\<close> reads from the answer of its lookup: the one line of
  the output, when the lookup exits with status zero and prints exactly one line that
  is not empty.
\<close>

definition lookup_name :: "check_result \<Rightarrow> string option" where
  "lookup_name answer =
     (case answer of
        CheckRaised \<Rightarrow> None
      | Output rc out \<Rightarrow>
          if rc \<noteq> 0 then None
          else (case py_split_on CHR 0x0A (py_strip out) of
                  [name] \<Rightarrow> if name = [] then None else Some name
                | _ \<Rightarrow> None))"

definition run_outcome :: "run_result \<Rightarrow> bool outcome" where
  "run_outcome r =
     (case r of Exited rc \<Rightarrow> Returned (rc = 0) | TimedOut \<Rightarrow> Returned False
              | RunRaised \<Rightarrow> Raised)"

text \<open>
  The strings handed to the shell for a backup, a restore and a listing of snapshots.
\<close>

definition backup_shell_cmd :: "world \<Rightarrow> string \<Rightarrow> string \<Rightarrow> server_config \<Rightarrow> string" where
  "backup_shell_cmd w server_id container_path config =
     py_join '' '' (backup_cmd (pbs_repository w) (pbs_namespace w) server_id container_path config)"

definition restore_shell_cmd :: "world \<Rightarrow> string \<Rightarrow> string \<Rightarrow> string \<Rightarrow> string" where
  "restore_shell_cmd w server_id snapshot_name container_path =
     py_join '' ''
       (restore_cmd (pbs_repository w) (pbs_namespace w) server_id snapshot_name container_path)"

text \<open>Kinds of events.\<close>

definition is_popen :: "event \<Rightarrow> bool" where
  "is_popen e = (case e of EPopen c r \<Rightarrow> True | _ \<Rightarrow> False)"

definition is_file_event :: "event \<Rightarrow> bool" where
  "is_file_event e =
     (case e of EListdir d xs \<Rightarrow> True | EUnlink p b \<Rightarrow> True | ERmtree p b \<Rightarrow> True
              | _ \<Rightarrow> False)"

definition failed_deletion :: "event \<Rightarrow> bool" where
  "failed_deletion e =
     (case e of EUnlink p ok \<Rightarrow> \<not> ok | ERmtree p ok \<Rightarrow> \<not> ok | _ \<Rightarrow> False)"

definition is_docker_action :: "string \<Rightarrow> event \<Rightarrow> bool" where
  "is_docker_action action e =
     (case e of ERun (ShellString c) r \<Rightarrow> prefix (''docker '' @ action @ '' '') c | _ \<Rightarrow> False)"

definition raised_event :: "event \<Rightarrow> bool" where
  \<comment> \<open>a call of \<open>subprocess\<close> that ended in an exception the program does not catch\<close>
  "raised_event e =
     (case e of
        ECheckOutput c answer \<Rightarrow> answer = CheckRaised
      | ERun c r \<Rightarrow> r = RunRaised
      | EPopen c r \<Rightarrow> r = PopenRaised
      | _ \<Rightarrow> False)"

text \<open>
  The command line of an event that starts a process; whether an event hands its command
  over as an argument vector, as opposed to one string for the shell; and the converse.
\<close>

definition process_cmdline :: "event \<Rightarrow> cmdline option" where
  "process_cmdline e =
     (case e of
        ECheckOutput c answer \<Rightarrow> Some c
      | ERun c r \<Rightarrow> Some c
      | EPopen c r \<Rightarrow> Some c
      | _ \<Rightarrow> None)"

definition passes_argument_vector :: "event \<Rightarrow> bool" where
  "passes_argument_vector e =
     (case process_cmdline e of Some (ShellString s) \<Rightarrow> False | _ \<Rightarrow> True)"

definition invoked_by_shell :: "event \<Rightarrow> bool" where
  "invoked_by_shell e =
     (case process_cmdline e of Some (ArgVector a) \<Rightarrow> False | _ \<Rightarrow> True)"

text \<open>
  The per-server settings that the one-shot backup uses for a server missing from the
  configuration, and the exit status that \<open>main\<close> derives from the result of
  \<open>backup_server\<close>.
\<close>

definition cli_config :: "bool \<Rightarrow> server_config" where
  "cli_config arg_shutdown =
     (if arg_shutdown then empty_config\<lparr>cfg_shutdown := Some True\<rparr> else empty_config)"

definition exit_of :: "bool outcome \<Rightarrow> exit_status" where
  "exit_of r = (case r of Returned True \<Rightarrow> Exit 0 | Returned False \<Rightarrow> Exit 1 | Raised \<Rightarrow> Uncaught)"


text \<open>
  The trigger built from five cron fields, the fields of a server's schedule (none when the
  key is missing, which raises \<open>KeyError\<close> inside the \<open>try\<close>), the test that
  \<open>schedule_jobs\<close> applies before it adds a job, and the job it adds.
\<close>

definition trigger_of :: "string list \<Rightarrow> cron_trigger" where
  "trigger_of cron_expr =
     \<lparr>minute = cron_expr ! 0, hour = cron_expr ! 1, day = cron_expr ! 2,
      month = cron_expr ! 3, day_of_week = cron_expr ! 4\<rparr>"

definition schedule_fields :: "server_config \<Rightarrow> string list" where
  "schedule_fields settings =
     (case cfg_schedule settings of None \<Rightarrow> [] | Some schedule \<Rightarrow> py_split schedule)"

definition registrable :: "(cron_trigger \<Rightarrow> bool) \<Rightarrow> server_config \<Rightarrow> bool" where
  "registrable trigger_ok settings =
     (length (schedule_fields settings) = 5 \<and> trigger_ok (trigger_of (schedule_fields settings)))"

definition backup_job :: "string \<times> server_config \<Rightarrow> job" where
  "backup_job entry =
     \<lparr>job_id = fst entry, job_name = ''Backup '' @ fst entry, job_args = entry,
      job_trigger = trigger_of (schedule_fields (snd entry)),
      misfire_grace_time = 3600\<rparr>"

section \<open>A sample installation\<close>

text \<open>
  One volume directory \<open>/data/alpha-world\<close> and one container \<open>alpha-world\<close>, which is
  running. The parameters are the outcome of the backup command, the outcome of every
  \<open>docker\<close> action before the backup command has run, and, for the time after it has
  run, the answer of the container lookup and the outcome of every \<open>docker\<close> action.
\<close>

definition demo_world ::
  "popen_result \<Rightarrow> run_result \<Rightarrow> check_result \<Rightarrow> run_result \<Rightarrow> world" where
  "demo_world backup_result stop_result lookup_afterwards start_result =
     \<lparr>volumes_path = ''/data'', pbs_repository = ''pbs'', pbs_namespace = ''ns'',
      glob_glob = (\<lambda>h p. if p = ''/data/alpha*'' then [''/data/alpha-world''] else []),
      check_output = (\<lambda>h c. if c = list_containers_cmd ''alpha''
                                 \<or> c = running_containers_cmd ''alpha''
                              then (if list_ex is_popen h then lookup_afterwards
                                    else Output 0 (''alpha-world'' @ [CHR 0x0A]))
                              else Output 1 []),
      subprocess_run = (\<lambda>h c. if list_ex is_popen h then start_result else stop_result),
      popen_communicate = (\<lambda>h c. backup_result)\<rparr>"

definition found_alpha :: check_result where
  "found_alpha = Output 0 (''alpha-world'' @ [CHR 0x0A])"

definition shutdown_config :: server_config where
  "shutdown_config = empty_config\<lparr>cfg_shutdown := Some True\<rparr>"

text \<open>
  The volume of the sample installation: a regular file, a directory and a socket.
\<close>

definition demo_fs :: filesystem where
  "demo_fs =
     (\<lambda>d. if d = ''/data/alpha-world''
          then Some [\<lparr>nname = ''world.dat'', nkind = File, removable = True\<rparr>,
                     \<lparr>nname = ''logs'', nkind = Dir, removable = True\<rparr>,
                     \<lparr>nname = ''console.sock'', nkind = Other, removable = True\<rparr>]
          else None)"

text \<open>
  Three servers: the schedule of \<open>beta\<close> has four fields.
\<close>

definition demo_settings :: "string \<Rightarrow> server_config" where
  "demo_settings schedule = empty_config\<lparr>cfg_name := Some ''Demo'', cfg_schedule := Some schedule\<rparr>"

definition demo_servers :: "(string \<times> server_config) list" where
  "demo_servers =
     [(''alpha'', demo_settings ''0 3 * * *''),
      (''beta'', demo_settings ''0 3 * *''),
      (''gamma'', demo_settings '' 30  4 * * 1 '')]"


section \<open>The backup command line and its exclude arguments\<close>


lemma py_join_Cons:
  "py_join sep (x # xs) = x @ concat (map (\<lambda>t. sep @ t) xs)"
  by (induction sep "x # xs" arbitrary: x xs rule: py_join.induct) simp_all

lemma py_join_append:
  "xs \<noteq> [] \<Longrightarrow> py_join sep (xs @ ys) = py_join sep xs @ concat (map (\<lambda>t. sep @ t) ys)"
  by (cases xs) (simp_all add: py_join_Cons)

lemma exclude_args_joined:
  "concat (map ((#) CHR '' '') (exclude_args p xs))
     = concat (map (\<lambda>e. '' --exclude '' @ os_path_join p e) xs)"
  by (induction xs) simp_all


lemma space_is_space [simp]: "py_isspace CHR '' ''"
  by (simp add: py_isspace_def)




lemma backup_shell_cmd_eq:
  "backup_shell_cmd w sid cp config =
      ''proxmox-backup-client backup '' @ dq @ sid @ ''.pxar:'' @ cp @ dq
        @ '' --repository '' @ sq @ pbs_repository w @ sq
        @ '' --ns '' @ pbs_namespace w
        @ '' --backup-type host --change-detection-mode metadata --backup-id '' @ sid
        @ concat (map (\<lambda>e. '' --exclude '' @ os_path_join cp e) (get_ignore_paths config))"
  by (simp add: backup_shell_cmd_def backup_cmd_def py_join_Cons exclude_args_joined)





section \<open>Histories of container control\<close>

lemmas demo_simps = demo_world_def found_alpha_def shutdown_config_def empty_config_def
  get_shutdown_def get_ignore_paths_def get_container_path_def manage_container_def
  run_command_def stop_if_running_def backup_server_def popen_outcome_def
  observed_running_def observed_stopped_def after_running_query_def
  backup_shell_cmd_def backup_cmd_def list_containers_cmd_def running_containers_cmd_def
  sq_def dq_def py_strip_def py_isspace_def is_popen_def is_docker_action_def
  raised_event_def Let_def

lemma event_kind_simps [simp]:
  "\<not> is_popen (EGlob p ms)" "\<not> is_popen (ECheckOutput c a)" "\<not> is_popen (ERun c r)"
  "is_popen (EPopen c pr)"
  "\<not> is_popen (EListdir d xs)" "\<not> is_popen (EUnlink d b)" "\<not> is_popen (ERmtree d b)"
  "\<not> is_file_event (EGlob p ms)" "\<not> is_file_event (ECheckOutput c a)"
  "\<not> is_file_event (ERun c r)" "\<not> is_file_event (EPopen c pr)"
  "is_file_event (EListdir d xs)" "is_file_event (EUnlink d b)" "is_file_event (ERmtree d b)"
  "\<not> raised_event (EGlob p ms)"
  "raised_event (ECheckOutput c a) \<longleftrightarrow> a = CheckRaised"
  "raised_event (ERun c r) \<longleftrightarrow> r = RunRaised"
  "raised_event (EPopen c pr) \<longleftrightarrow> pr = PopenRaised"
  "\<not> raised_event (EListdir d xs)" "\<not> raised_event (EUnlink d b)"
  "\<not> raised_event (ERmtree d b)"
  "invoked_by_shell (EGlob p ms)"
  "invoked_by_shell (ECheckOutput (ShellString s) a)"
  "invoked_by_shell (ERun (ShellString s) r)"
  "invoked_by_shell (EPopen (ShellString s) pr)"
  "invoked_by_shell (EListdir d xs)" "invoked_by_shell (EUnlink d b)"
  "invoked_by_shell (ERmtree d b)"
  by (simp_all add: is_popen_def is_file_event_def raised_event_def invoked_by_shell_def
        process_cmdline_def)

lemma run_command_eq:
  "run_command w cmd h =
     (run_outcome (subprocess_run w h cmd), h @ [ERun (ShellString cmd) (subprocess_run w h cmd)])"
  by (simp add: run_command_def run_outcome_def Let_def split: run_result.splits)

lemma run_outcome_Raised [simp]: "run_outcome r = Raised \<longleftrightarrow> r = RunRaised"
  by (cases r) (simp_all add: run_outcome_def)

text \<open>
  \<open>manage_container\<close> looks the container up and, when the lookup gives one name, runs
  the \<open>docker\<close> action on it; otherwise it runs nothing.
\<close>

lemma manage_container_eq:
  "manage_container w sid action h =
     (let answer = check_output w h (list_containers_cmd sid);
          h' = h @ [ECheckOutput (ShellString (list_containers_cmd sid)) answer]
      in case lookup_name answer of
           Some name \<Rightarrow> run_command w (''docker '' @ action @ '' '' @ name) h'
         | None \<Rightarrow> ((if answer = CheckRaised then Raised else Returned False), h'))"
proof (cases "check_output w h (list_containers_cmd sid)")
  case CheckRaised
  then show ?thesis by (simp add: manage_container_def lookup_name_def Let_def)
next
  case (Output rc out)
  show ?thesis
  proof (cases "rc = 0")
    case False
    with Output show ?thesis by (simp add: manage_container_def lookup_name_def Let_def)
  next
    case True
    show ?thesis
    proof (cases "py_split_on CHR 0x0A (py_strip out)")
      case Nil
      with Output True show ?thesis
        by (simp add: manage_container_def lookup_name_def Let_def)
    next
      case (Cons name rest)
      show ?thesis
      proof (cases rest)
        case Nil
        with Output True Cons show ?thesis
          by (simp add: manage_container_def lookup_name_def Let_def)
      next
        case (Cons second more)
        with Output True \<open>py_split_on CHR 0x0A (py_strip out) = name # rest\<close> show ?thesis
          by (simp add: manage_container_def lookup_name_def Let_def)
      qed
    qed
  qed
qed

lemma manage_container_events:
  "\<exists>evs. snd (manage_container w sid action h) = h @ evs \<and>
     (\<forall>e \<in> set evs. \<not> is_popen e \<and> \<not> is_file_event e \<and> invoked_by_shell e \<and>
        (\<forall>c r. e = ERun c r \<longrightarrow> (\<exists>name. c = ShellString (''docker '' @ action @ '' '' @ name)))) \<and>
     (fst (manage_container w sid action h) = Raised \<longleftrightarrow> (\<exists>e \<in> set evs. raised_event e))"
proof -
  define answer where "answer = check_output w h (list_containers_cmd sid)"
  let ?q = "ECheckOutput (ShellString (list_containers_cmd sid)) answer"
  show ?thesis
  proof (cases "lookup_name answer")
    case None
    then have "manage_container w sid action h =
        ((if answer = CheckRaised then Raised else Returned False), h @ [?q])"
      by (simp add: manage_container_eq answer_def Let_def)
    then show ?thesis by (intro exI [of _ "[?q]"]) simp
  next
    case (Some name)
    then have ok: "answer \<noteq> CheckRaised" by (auto simp: lookup_name_def)
    let ?cmd = "''docker '' @ action @ '' '' @ name"
    let ?r = "subprocess_run w (h @ [?q]) ?cmd"
    from Some have "manage_container w sid action h =
        (run_outcome ?r, h @ [?q, ERun (ShellString ?cmd) ?r])"
      by (simp add: manage_container_eq answer_def Let_def run_command_eq)
    then show ?thesis using ok by (intro exI [of _ "[?q, ERun (ShellString ?cmd) ?r]"]) auto
  qed
qed

lemma docker_stop_is_no_start:
  assumes "\<forall>c r. e = ERun c r \<longrightarrow> (\<exists>name. c = ShellString (''docker '' @ ''stop'' @ '' '' @ name))"
  shows "\<not> is_docker_action ''start'' e"
  using assms by (auto simp: is_docker_action_def split: event.splits cmdline.splits)


section \<open>Histories of backup\<close>

lemma get_container_path_history:
  "snd (get_container_path w sid h) =
     h @ [EGlob (volumes_path w @ ''/'' @ sid @ ''*'')
            (glob_glob w h (volumes_path w @ ''/'' @ sid @ ''*''))]"
  by (simp add: get_container_path_def Let_def)

text \<open>The three ways through lines 143 to 157 when shutdown is required.\<close>

lemma stop_if_running_running:
  assumes "get_shutdown config" and "observed_running w sid h"
  shows "stop_if_running w sid config h =
     (case manage_container w sid ''stop'' (after_running_query w sid h) of
        (Raised, h') \<Rightarrow> (Raised, h')
      | (Returned stopped, h') \<Rightarrow> (Returned (stopped, True), h'))"
  using assms
  by (auto simp: stop_if_running_def observed_running_def after_running_query_def Let_def
        split: check_result.splits)

lemma stop_if_running_stopped:
  assumes "get_shutdown config" and "observed_stopped w sid h"
  shows "stop_if_running w sid config h = (Returned (True, False), after_running_query w sid h)"
  using assms
  by (auto simp: stop_if_running_def observed_stopped_def after_running_query_def Let_def
        split: check_result.splits)

lemma stop_if_running_raised:
  assumes "get_shutdown config"
    and "check_output w h (running_containers_cmd sid) = CheckRaised"
  shows "stop_if_running w sid config h = (Raised, after_running_query w sid h)"
  using assms by (simp add: stop_if_running_def after_running_query_def Let_def)

lemma running_query_cases:
  "observed_running w sid h \<or> observed_stopped w sid h
   \<or> check_output w h (running_containers_cmd sid) = CheckRaised"
  by (auto simp: observed_running_def observed_stopped_def split: check_result.splits)

lemma stop_if_running_events:
  "\<exists>evs. snd (stop_if_running w sid config h) = h @ evs \<and>
     (\<forall>e \<in> set evs. \<not> is_popen e \<and> \<not> is_file_event e \<and> invoked_by_shell e
                     \<and> \<not> is_docker_action ''start'' e) \<and>
     (fst (stop_if_running w sid config h) = Raised \<longleftrightarrow> (\<exists>e \<in> set evs. raised_event e))"
proof (cases "get_shutdown config")
  case False
  then show ?thesis by (simp add: stop_if_running_def)
next
  case True
  let ?answer = "check_output w h (running_containers_cmd sid)"
  let ?q = "ECheckOutput (ShellString (running_containers_cmd sid)) ?answer"
  have q: "after_running_query w sid h = h @ [?q]" by (simp add: after_running_query_def)
  have nq: "\<not> is_docker_action ''start'' ?q" by (simp add: is_docker_action_def)
  from running_query_cases [of w sid h] show ?thesis
  proof (elim disjE)
    assume stopped: "observed_stopped w sid h"
    then have "?answer \<noteq> CheckRaised" by (auto simp: observed_stopped_def)
    with stop_if_running_stopped [OF True stopped] q nq show ?thesis
      by (intro exI [of _ "[?q]"]) simp
  next
    assume r: "?answer = CheckRaised"
    with stop_if_running_raised [OF True r] q nq show ?thesis
      by (intro exI [of _ "[?q]"]) simp
  next
    assume running: "observed_running w sid h"
    then have a: "?answer \<noteq> CheckRaised" by (auto simp: observed_running_def)
    obtain res h2 where mc: "manage_container w sid ''stop'' (h @ [?q]) = (res, h2)"
      by (cases "manage_container w sid ''stop'' (h @ [?q])")
    from manage_container_events [of w sid "''stop''" "h @ [?q]"] mc
    obtain evs where e: "h2 = (h @ [?q]) @ evs"
      and n: "\<forall>e \<in> set evs. \<not> is_popen e \<and> \<not> is_file_event e \<and> invoked_by_shell e \<and>
        (\<forall>c r. e = ERun c r \<longrightarrow> (\<exists>name. c = ShellString (''docker '' @ ''stop'' @ '' '' @ name)))"
      and x: "res = Raised \<longleftrightarrow> (\<exists>e \<in> set evs. raised_event e)"
      by auto
    have s: "snd (stop_if_running w sid config h) = h @ ([?q] @ evs)"
      and f: "fst (stop_if_running w sid config h) = Raised \<longleftrightarrow> res = Raised"
      using stop_if_running_running [OF True running] q mc e by (cases res; simp)+
    have "\<forall>e \<in> set ([?q] @ evs). \<not> is_popen e \<and> \<not> is_file_event e \<and> invoked_by_shell e
                     \<and> \<not> is_docker_action ''start'' e"
      using n nq docker_stop_is_no_start by auto
    moreover have "fst (stop_if_running w sid config h) = Raised
                    \<longleftrightarrow> (\<exists>e \<in> set ([?q] @ evs). raised_event e)"
      using f x a by simp
    ultimately show ?thesis using s by blast
  qed
qed

text \<open>
  C6. A backup with shutdown required, whose volume resolves, which observes the container
  running and whose stop fails, returns \<open>False\<close> at once: its history ends with what the
  stop attempt did, and after the query for running containers it holds no backup command
  and no \<open>docker start\<close>.
\<close>

theorem backup_stop_failure_aborts:
  assumes path: "get_container_path w sid h = (Inr cp, h1)"
    and shut: "get_shutdown config"
    and running: "observed_running w sid h1"
    and stop: "fst (manage_container w sid ''stop'' (after_running_query w sid h1))
                 = Returned False"
  shows "backup_server w sid config h =
           (Returned False, snd (manage_container w sid ''stop'' (after_running_query w sid h1)))
       \<and> (\<exists>evs. snd (backup_server w sid config h) = after_running_query w sid h1 @ evs
              \<and> (\<forall>e \<in> set evs. \<not> is_popen e \<and> \<not> is_docker_action ''start'' e))"
proof -
  obtain res h2 where mc: "manage_container w sid ''stop'' (after_running_query w sid h1) = (res, h2)"
    by (cases "manage_container w sid ''stop'' (after_running_query w sid h1)")
  with stop have res: "res = Returned False" by simp
  have s: "stop_if_running w sid config h1 = (Returned (False, True), h2)"
    using stop_if_running_running [OF shut running] mc res by simp
  have b: "backup_server w sid config h = (Returned False, h2)"
    by (simp add: backup_server_def path s)
  from manage_container_events [of w sid "''stop''" "after_running_query w sid h1"] mc
  obtain evs where evs: "h2 = after_running_query w sid h1 @ evs"
    and no: "\<forall>e \<in> set evs. \<not> is_popen e \<and>
        (\<forall>c r. e = ERun c r \<longrightarrow> (\<exists>name. c = ShellString (''docker '' @ ''stop'' @ '' '' @ name)))"
    by auto
  have "\<forall>e \<in> set evs. \<not> is_popen e \<and> \<not> is_docker_action ''start'' e"
    using no docker_stop_is_no_start by blast
  with b evs mc show ?thesis by auto
qed

theorem backup_stop_failure_aborts_witness:
  "get_shutdown shutdown_config
   \<and> observed_running (demo_world (PopenExit 0 [] []) (Exited 1) found_alpha (Exited 0)) ''alpha''
        [EGlob ''/data/alpha*'' [''/data/alpha-world'']]
   \<and> fst (backup_server (demo_world (PopenExit 0 [] []) (Exited 1) found_alpha (Exited 0))
            ''alpha'' shutdown_config [])
       = Returned False
   \<and> last (snd (backup_server (demo_world (PopenExit 0 [] []) (Exited 1) found_alpha (Exited 0))
                  ''alpha'' shutdown_config []))
       = ERun (ShellString ''docker stop alpha-world'') (Exited 1)"
proof -
  let ?w = "demo_world (PopenExit 0 [] []) (Exited 1) found_alpha (Exited 0)"
  let ?h1 = "[EGlob ''/data/alpha*'' [''/data/alpha-world'']]"
  have path: "get_container_path ?w ''alpha'' [] = (Inr ''/data/alpha-world'', ?h1)"
    by (simp add: demo_simps)
  have shut: "get_shutdown shutdown_config" by (simp add: demo_simps)
  have running: "observed_running ?w ''alpha'' ?h1" by (simp add: demo_simps)
  have mc: "manage_container ?w ''alpha'' ''stop'' (after_running_query ?w ''alpha'' ?h1)
      = (Returned False,
         after_running_query ?w ''alpha'' ?h1 @
          [ECheckOutput (ShellString (list_containers_cmd ''alpha'')) found_alpha,
           ERun (ShellString ''docker stop alpha-world'') (Exited 1)])"
    by (simp add: demo_simps)
  then have stop: "fst (manage_container ?w ''alpha'' ''stop''
                         (after_running_query ?w ''alpha'' ?h1)) = Returned False"
    by simp
  from backup_stop_failure_aborts [OF path shut running stop]
  have "backup_server ?w ''alpha'' shutdown_config [] =
          (Returned False,
           snd (manage_container ?w ''alpha'' ''stop'' (after_running_query ?w ''alpha'' ?h1)))"
    by blast
  with mc shut running show ?thesis by simp
qed


text \<open>
  Every run of \<open>backup_server\<close> either ends before the backup command, or runs it once,
  with no uncaught exception before it. In the second case the result is that of the
  backup command unless a call of the restart raises.
\<close>

lemma backup_server_shape:
  "\<exists>evs. snd (backup_server w sid config h) = h @ evs \<and>
     (\<forall>e \<in> set evs. invoked_by_shell e \<and> \<not> is_file_event e) \<and>
     ((fst (backup_server w sid config h) \<noteq> Returned True \<and> (\<forall>e \<in> set evs. \<not> is_popen e) \<and>
       (fst (backup_server w sid config h) = Raised \<longleftrightarrow> (\<exists>e \<in> set evs. raised_event e)))
      \<or> (\<exists>pre cp r post.
            evs = pre @ [EPopen (ShellString (backup_shell_cmd w sid cp config)) r] @ post \<and>
            fst (get_container_path w sid h) = Inr cp \<and>
            (\<forall>e \<in> set pre. \<not> is_popen e \<and> \<not> raised_event e) \<and>
            (\<forall>e \<in> set post. \<not> is_popen e) \<and>
            fst (backup_server w sid config h) =
              (if \<exists>e \<in> set post. raised_event e then Raised else popen_outcome r)))"
proof -
  let ?g = "EGlob (volumes_path w @ ''/'' @ sid @ ''*'')
            (glob_glob w h (volumes_path w @ ''/'' @ sid @ ''*''))"
  obtain res h1 where g: "get_container_path w sid h = (res, h1)"
    by (cases "get_container_path w sid h")
  with get_container_path_history [of w sid h] have h1: "h1 = h @ [?g]" by simp
  show ?thesis
  proof (cases res)
    case (Inl e)
    then have "backup_server w sid config h = (Returned False, h @ [?g])"
      using g h1 by (simp add: backup_server_def)
    then show ?thesis by (intro exI [of _ "[?g]"]) simp
  next
    case (Inr cp)
    obtain sres h2 where s: "stop_if_running w sid config h1 = (sres, h2)"
      by (cases "stop_if_running w sid config h1")
    from stop_if_running_events [of w sid config h1] s
    obtain evs where h2: "h2 = h1 @ evs"
      and n: "\<forall>e \<in> set evs. \<not> is_popen e \<and> \<not> is_file_event e \<and> invoked_by_shell e"
      and x: "sres = Raised \<longleftrightarrow> (\<exists>e \<in> set evs. raised_event e)"
      by auto
    have early: ?thesis if b: "backup_server w sid config h = (y, h2)"
      and y: "y \<noteq> Returned True" "y = Raised \<longleftrightarrow> sres = Raised" for y
    proof -
      have "snd (backup_server w sid config h) = h @ ([?g] @ evs)" using b h2 h1 by simp
      moreover have "\<forall>e \<in> set ([?g] @ evs). invoked_by_shell e \<and> \<not> is_file_event e"
        using n by simp
      moreover have "\<forall>e \<in> set ([?g] @ evs). \<not> is_popen e" using n by simp
      moreover have "fst (backup_server w sid config h) = Raised
                      \<longleftrightarrow> (\<exists>e \<in> set ([?g] @ evs). raised_event e)"
        using b y x by simp
      moreover have "fst (backup_server w sid config h) \<noteq> Returned True" using b y by simp
      ultimately show ?thesis by blast
    qed
    show ?thesis
    proof (cases sres)
      case Raised
      then have "backup_server w sid config h = (Raised, h2)"
        using g Inr s by (simp add: backup_server_def)
      then show ?thesis using Raised by (intro early [of Raised]) simp_all
    next
      case (Returned pair)
      obtain go wr where pair: "pair = (go, wr)" by (cases pair)
      from Returned x have clean: "\<forall>e \<in> set evs. \<not> raised_event e" by simp
      show ?thesis
      proof (cases go)
        case False
        then have "backup_server w sid config h = (Returned False, h2)"
          using g Inr s Returned pair by (simp add: backup_server_def)
        then show ?thesis using Returned by (intro early [of "Returned False"]) simp_all
      next
        case True
        define cmd where "cmd = backup_shell_cmd w sid cp config"
        define r where "r = popen_communicate w h2 cmd"
        define h3 where "h3 = h2 @ [EPopen (ShellString cmd) r]"
        obtain mres h4 where mc: "manage_container w sid ''start'' h3 = (mres, h4)"
          by (cases "manage_container w sid ''start'' h3")
        from manage_container_events [of w sid "''start''" h3] mc
        obtain post0 where p0: "h4 = h3 @ post0"
          and np0: "\<forall>e \<in> set post0. \<not> is_popen e \<and> \<not> is_file_event e \<and> invoked_by_shell e"
          and x0: "mres = Raised \<longleftrightarrow> (\<exists>e \<in> set post0. raised_event e)"
          by auto
        define post where "post = (if get_shutdown config \<and> wr then post0 else [])"
        have b: "backup_server w sid config h =
            ((if \<exists>e \<in> set post. raised_event e then Raised else popen_outcome r), h3 @ post)"
        proof (cases "get_shutdown config \<and> wr")
          case False
          then show ?thesis
            using g Inr s Returned pair True
            by (auto simp: backup_server_def Let_def cmd_def r_def h3_def post_def
                  backup_shell_cmd_def)
        next
          case restart: True
          then show ?thesis
            using g Inr s Returned pair True mc p0 x0
            by (cases mres)
               (auto simp: backup_server_def Let_def cmd_def r_def h3_def post_def
                  backup_shell_cmd_def)
        qed
        have np: "\<forall>e \<in> set post. \<not> is_popen e \<and> \<not> is_file_event e \<and> invoked_by_shell e"
          using np0 by (simp add: post_def)
        let ?pre = "[?g] @ evs"
        let ?evs = "?pre @ [EPopen (ShellString cmd) r] @ post"
        have 1: "snd (backup_server w sid config h) = h @ ?evs"
          using b by (simp add: h3_def h2 h1)
        have 2: "\<forall>e \<in> set ?evs. invoked_by_shell e \<and> \<not> is_file_event e"
          using n np by auto
        have 3: "\<forall>e \<in> set ?pre. \<not> is_popen e \<and> \<not> raised_event e" using n clean by simp
        have 4: "\<forall>e \<in> set post. \<not> is_popen e" using np by simp
        have 5: "fst (backup_server w sid config h) =
              (if \<exists>e \<in> set post. raised_event e then Raised else popen_outcome r)"
          using b by simp
        have 6: "fst (get_container_path w sid h) = Inr cp" using g Inr by simp
        show ?thesis
          apply (rule exI [of _ ?evs])
          apply (intro conjI)
            apply (rule 1)
           apply (rule 2)
          apply (rule disjI2)
          apply (rule exI [of _ ?pre])
          apply (rule exI [of _ cp])
          apply (rule exI [of _ r])
          apply (rule exI [of _ post])
          using 3 4 5 6 by (simp add: cmd_def)
      qed
    qed
  qed
qed

lemma popen_outcome_simps [simp]:
  "popen_outcome r = Raised \<longleftrightarrow> r = PopenRaised"
  "popen_outcome r = Returned True \<longleftrightarrow> (\<exists>out err. r = PopenExit 0 out err)"
  "popen_outcome (PopenExit rc out err) = Returned (rc = 0)"
  by (cases r; simp add: popen_outcome_def)+

text \<open>
  The result of \<open>backup_server\<close> against the events of its history: it raises exactly when
  a call of \<open>subprocess\<close> raised, and otherwise its result is the exit status of the
  backup command, if that ran.
\<close>

lemma backup_server_result:
  "(fst (backup_server w sid config h) = Returned True
      \<longleftrightarrow> (\<exists>cmd out err. EPopen cmd (PopenExit 0 out err)
                \<in> set (drop (length h) (snd (backup_server w sid config h))))
          \<and> (\<forall>e \<in> set (drop (length h) (snd (backup_server w sid config h))). \<not> raised_event e))
   \<and> (\<forall>cmd rc out err.
         EPopen cmd (PopenExit rc out err)
           \<in> set (drop (length h) (snd (backup_server w sid config h)))
         \<and> (\<forall>e \<in> set (drop (length h) (snd (backup_server w sid config h))). \<not> raised_event e)
         \<longrightarrow> fst (backup_server w sid config h) = Returned (rc = 0))
   \<and> (fst (backup_server w sid config h) = Raised
        \<longleftrightarrow> (\<exists>e \<in> set (drop (length h) (snd (backup_server w sid config h))). raised_event e))"
proof -
  from backup_server_shape [of w sid config h]
  obtain evs where e: "snd (backup_server w sid config h) = h @ evs"
    and d: "(fst (backup_server w sid config h) \<noteq> Returned True \<and> (\<forall>e \<in> set evs. \<not> is_popen e) \<and>
       (fst (backup_server w sid config h) = Raised \<longleftrightarrow> (\<exists>e \<in> set evs. raised_event e)))
      \<or> (\<exists>pre cp r post.
            evs = pre @ [EPopen (ShellString (backup_shell_cmd w sid cp config)) r] @ post \<and>
            fst (get_container_path w sid h) = Inr cp \<and>
            (\<forall>e \<in> set pre. \<not> is_popen e \<and> \<not> raised_event e) \<and>
            (\<forall>e \<in> set post. \<not> is_popen e) \<and>
            fst (backup_server w sid config h) =
              (if \<exists>e \<in> set post. raised_event e then Raised else popen_outcome r))"
    by blast
  have new: "drop (length h) (snd (backup_server w sid config h)) = evs" by (simp add: e)
  from d show ?thesis
  proof
    assume a: "fst (backup_server w sid config h) \<noteq> Returned True \<and>
       (\<forall>e \<in> set evs. \<not> is_popen e) \<and>
       (fst (backup_server w sid config h) = Raised \<longleftrightarrow> (\<exists>e \<in> set evs. raised_event e))"
    then have "\<And>c x. EPopen c x \<notin> set evs" by force
    with a show ?thesis unfolding new by simp
  next
    assume "\<exists>pre cp r post.
            evs = pre @ [EPopen (ShellString (backup_shell_cmd w sid cp config)) r] @ post \<and>
            fst (get_container_path w sid h) = Inr cp \<and>
            (\<forall>e \<in> set pre. \<not> is_popen e \<and> \<not> raised_event e) \<and>
            (\<forall>e \<in> set post. \<not> is_popen e) \<and>
            fst (backup_server w sid config h) =
              (if \<exists>e \<in> set post. raised_event e then Raised else popen_outcome r)"
    then obtain pre cp r post where
      evs: "evs = pre @ [EPopen (ShellString (backup_shell_cmd w sid cp config)) r] @ post"
      and n1: "\<forall>e \<in> set pre. \<not> is_popen e \<and> \<not> raised_event e"
      and n2: "\<forall>e \<in> set post. \<not> is_popen e"
      and f: "fst (backup_server w sid config h) =
              (if \<exists>e \<in> set post. raised_event e then Raised else popen_outcome r)"
      by blast
    have only: "EPopen c x \<in> set evs
                  \<longleftrightarrow> c = ShellString (backup_shell_cmd w sid cp config) \<and> x = r" for c x
      unfolding evs using n1 n2 by force
    have raised: "(\<exists>e \<in> set evs. raised_event e)
                    \<longleftrightarrow> r = PopenRaised \<or> (\<exists>e \<in> set post. raised_event e)"
      unfolding evs using n1 by auto
    have clean: "(\<forall>e \<in> set evs. \<not> raised_event e)
                    \<longleftrightarrow> r \<noteq> PopenRaised \<and> (\<forall>e \<in> set post. \<not> raised_event e)"
      using raised by blast
    show ?thesis
      unfolding new only raised clean f by (cases r) auto
  qed
qed


text \<open>
  C7, as the code has it. \<open>backup_server\<close> returns \<open>True\<close> exactly when its history
  holds a backup command that exited with status zero and no call of \<open>subprocess\<close> in
  it raised an exception that the program does not catch. As long as nothing raises,
  the result is \<open>rc = 0\<close> for the exit status \<open>rc\<close> of the backup command, whatever was
  written to stderr and whether or not the restart that follows succeeds. A call that
  raises, the restart in \<open>finally\<close> included, makes \<open>backup_server\<close> raise.
\<close>

theorem backup_result_is_exit_status:
  "(fst (backup_server w sid config h) = Returned True
      \<longleftrightarrow> (\<exists>cmd out err. EPopen cmd (PopenExit 0 out err)
                \<in> set (drop (length h) (snd (backup_server w sid config h))))
          \<and> (\<forall>e \<in> set (drop (length h) (snd (backup_server w sid config h))). \<not> raised_event e))
   \<and> (\<forall>cmd rc out err.
         EPopen cmd (PopenExit rc out err)
           \<in> set (drop (length h) (snd (backup_server w sid config h)))
         \<and> (\<forall>e \<in> set (drop (length h) (snd (backup_server w sid config h))). \<not> raised_event e)
         \<longrightarrow> fst (backup_server w sid config h) = Returned (rc = 0))
   \<and> (fst (backup_server w sid config h) = Raised
        \<longleftrightarrow> (\<exists>e \<in> set (drop (length h) (snd (backup_server w sid config h))). raised_event e))"
  by (rule backup_server_result)

text \<open>
  A restart that fails with a non-zero exit status leaves the result of a successful
  backup as it is.
\<close>

theorem backup_result_is_exit_status_witness:
  "fst (backup_server (demo_world (PopenExit 0 [] ''progress'') (Exited 0) found_alpha (Exited 1))
          ''alpha'' shutdown_config []) = Returned True
   \<and> last (snd (backup_server
                  (demo_world (PopenExit 0 [] ''progress'') (Exited 0) found_alpha (Exited 1))
                  ''alpha'' shutdown_config []))
       = ERun (ShellString ''docker start alpha-world'') (Exited 1)"
proof -
  let ?w = "demo_world (PopenExit 0 [] ''progress'') (Exited 0) found_alpha (Exited 1)"
  have a: "snd (backup_server ?w ''alpha'' shutdown_config []) =
     [EGlob ''/data/alpha*'' [''/data/alpha-world''],
      ECheckOutput (ShellString (running_containers_cmd ''alpha'')) found_alpha,
      ECheckOutput (ShellString (list_containers_cmd ''alpha'')) found_alpha,
      ERun (ShellString ''docker stop alpha-world'') (Exited 0),
      EPopen (ShellString (backup_shell_cmd ?w ''alpha'' ''/data/alpha-world'' shutdown_config))
        (PopenExit 0 [] ''progress''),
      ECheckOutput (ShellString (list_containers_cmd ''alpha'')) found_alpha,
      ERun (ShellString ''docker start alpha-world'') (Exited 1)]"
    by (simp add: demo_simps)
  from backup_result_is_exit_status [of ?w "''alpha''" shutdown_config "[]"]
  have "fst (backup_server ?w ''alpha'' shutdown_config []) = Returned True"
    unfolding a by (simp add: found_alpha_def)
  with a show ?thesis by simp
qed

text \<open>
  The backup command exits with status zero and the \<open>docker start\<close> of the restart raises:
  \<open>backup_server\<close> does not return \<open>True\<close>.
\<close>

theorem backup_result_counterexample:
  "EPopen (ShellString (backup_shell_cmd
             (demo_world (PopenExit 0 [] []) (Exited 0) found_alpha RunRaised)
             ''alpha'' ''/data/alpha-world'' shutdown_config))
          (PopenExit 0 [] [])
     \<in> set (snd (backup_server (demo_world (PopenExit 0 [] []) (Exited 0) found_alpha RunRaised)
                    ''alpha'' shutdown_config []))
   \<and> fst (backup_server (demo_world (PopenExit 0 [] []) (Exited 0) found_alpha RunRaised)
            ''alpha'' shutdown_config []) = Raised"
  by (simp add: demo_simps)

text \<open>
  C1, as the code has it. With shutdown required and the volume resolved: if the container
  was observed running and the stop succeeded, then, whatever the backup command does
  (exit with zero, exit with another status, raise), \<open>backup_server\<close> goes on after it
  with the container lookup of \<open>manage_container\<close>, and issues \<open>docker start\<close> on the
  name found exactly when that lookup exits with status zero and prints one name;
  otherwise the lookup is the last thing it does. If the container was observed not
  running, the history ends with the backup command: no stop and no start is issued.
\<close>

theorem backup_restarts_container:
  assumes path: "get_container_path w sid h = (Inr cp, h1)"
    and shut: "get_shutdown config"
  shows "(observed_running w sid h1 \<and>
          fst (manage_container w sid ''stop'' (after_running_query w sid h1)) = Returned True
          \<longrightarrow>
            (let h2 = snd (manage_container w sid ''stop'' (after_running_query w sid h1));
                 r = popen_communicate w h2 (backup_shell_cmd w sid cp config);
                 h3 = h2 @ [EPopen (ShellString (backup_shell_cmd w sid cp config)) r];
                 answer = check_output w h3 (list_containers_cmd sid);
                 h4 = h3 @ [ECheckOutput (ShellString (list_containers_cmd sid)) answer]
             in snd (backup_server w sid config h) =
                  (case lookup_name answer of
                     Some name \<Rightarrow>
                       h4 @ [ERun (ShellString (''docker start '' @ name))
                               (subprocess_run w h4 (''docker start '' @ name))]
                   | None \<Rightarrow> h4)))
       \<and> (observed_stopped w sid h1 \<longrightarrow>
            (let h2 = after_running_query w sid h1;
                 r = popen_communicate w h2 (backup_shell_cmd w sid cp config)
             in snd (backup_server w sid config h) =
                  h2 @ [EPopen (ShellString (backup_shell_cmd w sid cp config)) r]))"
proof -
  obtain res h2 where mc: "manage_container w sid ''stop'' (after_running_query w sid h1) = (res, h2)"
    by (cases "manage_container w sid ''stop'' (after_running_query w sid h1)")
  define r where "r = popen_communicate w h2 (backup_shell_cmd w sid cp config)"
  define h3 where "h3 = h2 @ [EPopen (ShellString (backup_shell_cmd w sid cp config)) r]"
  define answer where "answer = check_output w h3 (list_containers_cmd sid)"
  define h4 where "h4 = h3 @ [ECheckOutput (ShellString (list_containers_cmd sid)) answer]"
  have start: "snd (manage_container w sid ''start'' h3) =
      (case lookup_name answer of
         Some name \<Rightarrow>
           h4 @ [ERun (ShellString (''docker start '' @ name))
                   (subprocess_run w h4 (''docker start '' @ name))]
       | None \<Rightarrow> h4)"
    by (simp add: manage_container_eq run_command_eq answer_def h4_def Let_def
          split: option.splits)
  have a: "snd (backup_server w sid config h) = snd (manage_container w sid ''start'' h3)"
    if running: "observed_running w sid h1" and ok: "res = Returned True"
  proof -
    have s: "stop_if_running w sid config h1 = (Returned (True, True), h2)"
      using stop_if_running_running [OF shut running] mc ok by simp
    obtain mres h5 where m: "manage_container w sid ''start'' h3 = (mres, h5)"
      by (cases "manage_container w sid ''start'' h3")
    show ?thesis
      using path s shut m
      by (cases mres)
         (simp_all add: backup_server_def Let_def backup_shell_cmd_def r_def h3_def)
  qed
  have b: "snd (backup_server w sid config h) =
        after_running_query w sid h1 @
          [EPopen (ShellString (backup_shell_cmd w sid cp config))
             (popen_communicate w (after_running_query w sid h1)
                (backup_shell_cmd w sid cp config))]"
    if stopped: "observed_stopped w sid h1"
    using path stop_if_running_stopped [OF shut stopped]
    by (simp add: backup_server_def Let_def backup_shell_cmd_def)
  have first: "snd (backup_server w sid config h) =
      (case lookup_name answer of
         Some name \<Rightarrow>
           h4 @ [ERun (ShellString (''docker start '' @ name))
                   (subprocess_run w h4 (''docker start '' @ name))]
       | None \<Rightarrow> h4)"
    if "observed_running w sid h1" and "res = Returned True"
    using a [OF that] start by simp
  show ?thesis
  proof (intro conjI impI)
    assume "observed_running w sid h1 \<and>
          fst (manage_container w sid ''stop'' (after_running_query w sid h1)) = Returned True"
    with mc have "observed_running w sid h1" and "res = Returned True" by simp_all
    have h2eq: "snd (manage_container w sid ''stop'' (after_running_query w sid h1)) = h2"
      using mc by simp
    from first [OF \<open>observed_running w sid h1\<close> \<open>res = Returned True\<close>]
    show "let h2 = snd (manage_container w sid ''stop'' (after_running_query w sid h1));
                 r = popen_communicate w h2 (backup_shell_cmd w sid cp config);
                 h3 = h2 @ [EPopen (ShellString (backup_shell_cmd w sid cp config)) r];
                 answer = check_output w h3 (list_containers_cmd sid);
                 h4 = h3 @ [ECheckOutput (ShellString (list_containers_cmd sid)) answer]
             in snd (backup_server w sid config h) =
                  (case lookup_name answer of
                     Some name \<Rightarrow>
                       h4 @ [ERun (ShellString (''docker start '' @ name))
                               (subprocess_run w h4 (''docker start '' @ name))]
                   | None \<Rightarrow> h4)"
      unfolding Let_def h2eq r_def h3_def answer_def h4_def .
  next
    assume "observed_stopped w sid h1"
    from b [OF this]
    show "let h2 = after_running_query w sid h1;
                 r = popen_communicate w h2 (backup_shell_cmd w sid cp config)
             in snd (backup_server w sid config h) =
                  h2 @ [EPopen (ShellString (backup_shell_cmd w sid cp config)) r]"
      by (simp add: Let_def)
  qed
qed

theorem backup_restarts_container_witness:
  "get_shutdown shutdown_config
   \<and> observed_running (demo_world PopenRaised (Exited 0) found_alpha (Exited 0)) ''alpha''
        [EGlob ''/data/alpha*'' [''/data/alpha-world'']]
   \<and> fst (backup_server (demo_world PopenRaised (Exited 0) found_alpha (Exited 0)) ''alpha''
            shutdown_config []) = Raised
   \<and> last (snd (backup_server (demo_world PopenRaised (Exited 0) found_alpha (Exited 0))
                  ''alpha'' shutdown_config []))
       = ERun (ShellString ''docker start alpha-world'') (Exited 0)"
proof -
  let ?w = "demo_world PopenRaised (Exited 0) found_alpha (Exited 0)"
  let ?h1 = "[EGlob ''/data/alpha*'' [''/data/alpha-world'']]"
  have path: "get_container_path ?w ''alpha'' [] = (Inr ''/data/alpha-world'', ?h1)"
    by (simp add: demo_simps)
  have shut: "get_shutdown shutdown_config" by (simp add: demo_simps)
  have running: "observed_running ?w ''alpha'' ?h1" by (simp add: demo_simps)
  have stop: "manage_container ?w ''alpha'' ''stop'' (after_running_query ?w ''alpha'' ?h1)
     = (Returned True,
        [EGlob ''/data/alpha*'' [''/data/alpha-world''],
         ECheckOutput (ShellString (running_containers_cmd ''alpha'')) found_alpha,
         ECheckOutput (ShellString (list_containers_cmd ''alpha'')) found_alpha,
         ERun (ShellString ''docker stop alpha-world'') (Exited 0)])"
    by (simp add: demo_simps)
  have answer: "check_output ?w (h @ [EPopen c x]) (list_containers_cmd ''alpha'') = found_alpha"
    for h c x
    by (simp add: demo_world_def is_popen_def)
  have name: "lookup_name found_alpha = Some ''alpha-world''"
    by (simp add: lookup_name_def found_alpha_def py_strip_def py_isspace_def)
  have run: "subprocess_run ?w (h @ [EPopen c x, e]) d = Exited 0" for h c x e d
    by (simp add: demo_world_def is_popen_def)
  from backup_restarts_container [OF path shut] running stop
  have "last (snd (backup_server ?w ''alpha'' shutdown_config []))
       = ERun (ShellString ''docker start alpha-world'') (Exited 0)"
    by (simp add: Let_def answer name run)
  moreover have "fst (backup_server ?w ''alpha'' shutdown_config []) = Raised"
    by (simp add: demo_simps)
  ultimately show ?thesis using shut running by simp
qed

text \<open>
  The container is observed running and stopped, the backup command succeeds, and the
  container lookup made for the restart fails (the pipeline exits with status 1): no
  \<open>docker start\<close> is issued.
\<close>

theorem backup_restart_counterexample:
  "fst (get_container_path (demo_world (PopenExit 0 [] []) (Exited 0) (Output 1 []) (Exited 0))
          ''alpha'' []) = Inr ''/data/alpha-world''
   \<and> get_shutdown shutdown_config
   \<and> observed_running (demo_world (PopenExit 0 [] []) (Exited 0) (Output 1 []) (Exited 0))
        ''alpha'' [EGlob ''/data/alpha*'' [''/data/alpha-world'']]
   \<and> fst (manage_container (demo_world (PopenExit 0 [] []) (Exited 0) (Output 1 []) (Exited 0))
            ''alpha'' ''stop''
            (after_running_query
               (demo_world (PopenExit 0 [] []) (Exited 0) (Output 1 []) (Exited 0)) ''alpha''
               [EGlob ''/data/alpha*'' [''/data/alpha-world'']])) = Returned True
   \<and> fst (backup_server (demo_world (PopenExit 0 [] []) (Exited 0) (Output 1 []) (Exited 0))
            ''alpha'' shutdown_config []) = Returned True
   \<and> \<not> list_ex (is_docker_action ''start'')
         (snd (backup_server (demo_world (PopenExit 0 [] []) (Exited 0) (Output 1 []) (Exited 0))
                 ''alpha'' shutdown_config []))"
  by (simp add: demo_simps)


section \<open>Scheduling\<close>

lemma schedule_jobs_filter:
  "schedule_jobs ok servers scheduler =
     scheduler @ map backup_job (filter (\<lambda>entry. registrable ok (snd entry)) servers)"
proof (induction servers arbitrary: scheduler)
  case Nil
  then show ?case by simp
next
  case (Cons entry servers)
  obtain sid settings where e: "entry = (sid, settings)" by (cases entry)
  show ?case
  proof (cases "cfg_schedule settings")
    case None
    then show ?thesis using Cons.IH e by (simp add: registrable_def schedule_fields_def)
  next
    case (Some s)
    then show ?thesis
      using Cons.IH e
      by (simp add: registrable_def schedule_fields_def Let_def trigger_of_def backup_job_def)
  qed
qed

lemma count_key_distinct:
  "distinct (map fst xs) \<Longrightarrow> (k, v) \<in> set xs \<Longrightarrow> P (k, v) \<Longrightarrow>
     filter (\<lambda>e. fst e = k) (filter P xs) = [(k, v)]"
proof (induction xs)
  case Nil
  then show ?case by simp
next
  case (Cons x xs)
  show ?case
  proof (cases "x = (k, v)")
    case True
    with Cons.prems have "k \<notin> fst ` set xs" by auto
    then have "filter (\<lambda>e. fst e = k) (filter P xs) = []"
      by (auto simp: filter_empty_conv)
    with True Cons.prems show ?thesis by simp
  next
    case False
    with Cons.prems have in_xs: "(k, v) \<in> set xs" by auto
    then have "k \<in> fst ` set xs" by force
    with Cons.prems(1) have "fst x \<noteq> k" by auto
    moreover from Cons.prems have "distinct (map fst xs)" by simp
    ultimately show ?thesis using Cons.IH in_xs Cons.prems(3) by simp
  qed
qed

text \<open>
  C9. In a configuration (a dictionary: every serverID occurs once), a server whose
  schedule does not split into exactly five whitespace-separated fields gets no job, and a
  server whose schedule splits into five fields that the trigger accepts gets exactly one
  job, with its serverID as the job id, whatever the schedules of the other servers are.
\<close>

theorem schedule_jobs_skips_only_invalid:
  assumes keys: "distinct (map fst servers)"
    and entry: "(server_id, settings) \<in> set servers"
  shows "(length (schedule_fields settings) \<noteq> 5 \<longrightarrow>
            filter (\<lambda>j. job_id j = server_id)
                   (drop (length scheduler) (schedule_jobs trigger_ok servers scheduler))
              = [])
       \<and> (length (schedule_fields settings) = 5
            \<and> trigger_ok (trigger_of (schedule_fields settings)) \<longrightarrow>
            filter (\<lambda>j. job_id j = server_id)
                   (drop (length scheduler) (schedule_jobs trigger_ok servers scheduler))
              = [backup_job (server_id, settings)])"
proof -
  let ?P = "\<lambda>entry. registrable trigger_ok (snd entry)"
  have new: "drop (length scheduler) (schedule_jobs trigger_ok servers scheduler)
               = map backup_job (filter ?P servers)"
    by (simp add: schedule_jobs_filter)
  have f: "filter (\<lambda>j. job_id j = server_id) (map backup_job xs)
             = map backup_job (filter (\<lambda>e. fst e = server_id) xs)" for xs
    by (induction xs) (simp_all add: backup_job_def)
  show ?thesis
  proof (cases "registrable trigger_ok settings")
    case True
    with count_key_distinct [OF keys entry, of ?P]
    have "filter (\<lambda>e. fst e = server_id) (filter ?P servers) = [(server_id, settings)]"
      by simp
    with True show ?thesis by (simp add: new f registrable_def)
  next
    case False
    have "filter (\<lambda>e. fst e = server_id) (filter ?P servers) = []"
    proof (rule ccontr)
      assume "filter (\<lambda>e. fst e = server_id) (filter ?P servers) \<noteq> []"
      then obtain e where e: "e \<in> set servers" "fst e = server_id" "?P e"
        by (auto simp: filter_empty_conv)
      from keys e(1,2) entry have "e = (server_id, settings)"
        by (metis distinct_map fst_conv inj_onD)
      with e(3) False show False by simp
    qed
    with False show ?thesis by (auto simp: new f registrable_def)
  qed
qed

lemma demo_fields:
  "schedule_fields (demo_settings ''0 3 * * *'') = [''0'', ''3'', ''*'', ''*'', ''*'']"
  "schedule_fields (demo_settings ''0 3 * *'') = [''0'', ''3'', ''*'', ''*'']"
  "schedule_fields (demo_settings '' 30  4 * * 1 '') = [''30'', ''4'', ''*'', ''*'', ''1'']"
  by (simp_all add: demo_settings_def schedule_fields_def empty_config_def py_split_def
        py_isspace_def)

theorem schedule_jobs_skips_only_invalid_witness:
  "distinct (map fst demo_servers)
   \<and> filter (\<lambda>j. job_id j = ''beta'') (schedule_jobs (\<lambda>t. True) demo_servers []) = []
   \<and> filter (\<lambda>j. job_id j = ''gamma'') (schedule_jobs (\<lambda>t. True) demo_servers [])
       = [backup_job (''gamma'', demo_settings '' 30  4 * * 1 '')]"
proof -
  have keys: "distinct (map fst demo_servers)" by (simp add: demo_servers_def)
  have b: "(''beta'', demo_settings ''0 3 * *'') \<in> set demo_servers"
    by (simp add: demo_servers_def)
  have g: "(''gamma'', demo_settings '' 30  4 * * 1 '') \<in> set demo_servers"
    by (simp add: demo_servers_def)
  from schedule_jobs_skips_only_invalid [OF keys b, of "[]" "\<lambda>t. True"]
  have 1: "filter (\<lambda>j. job_id j = ''beta'') (schedule_jobs (\<lambda>t. True) demo_servers []) = []"
    by (simp add: demo_fields)
  from schedule_jobs_skips_only_invalid [OF keys g, of "[]" "\<lambda>t. True"]
  have 2: "filter (\<lambda>j. job_id j = ''gamma'') (schedule_jobs (\<lambda>t. True) demo_servers [])
       = [backup_job (''gamma'', demo_settings '' 30  4 * * 1 '')]"
    by (simp add: demo_fields)
  from keys 1 2 show ?thesis by simp
qed


section \<open>Histories of restore\<close>

lemma delete_contents_events:
  "\<exists>evs. snd (snd (delete_contents cp items fs h)) = h @ evs
         \<and> (\<forall>e \<in> set evs. is_file_event e)
         \<and> (fst (delete_contents cp items fs h) \<longleftrightarrow> (\<forall>e \<in> set evs. \<not> failed_deletion e))"
proof (induction items arbitrary: fs h)
  case Nil
  then show ?case by simp
next
  case (Cons item items)
  let ?p = "os_path_join cp item"
  consider (unlink_ok) "os_path_isfile fs cp item" "unlink_succeeds fs cp item"
    | (unlink_fails) "os_path_isfile fs cp item" "\<not> unlink_succeeds fs cp item"
    | (rmtree_ok) "\<not> os_path_isfile fs cp item" "os_path_isdir fs cp item"
        "rmtree_succeeds fs cp item"
    | (rmtree_fails) "\<not> os_path_isfile fs cp item" "os_path_isdir fs cp item"
        "\<not> rmtree_succeeds fs cp item"
    | (skipped) "\<not> os_path_isfile fs cp item" "\<not> os_path_isdir fs cp item"
    by blast
  then show ?case
  proof cases
    case unlink_ok
    from Cons.IH [of "remove_entry fs cp item" "h @ [EUnlink ?p True]"]
    obtain evs where
      e: "snd (snd (delete_contents cp items (remove_entry fs cp item) (h @ [EUnlink ?p True])))
            = (h @ [EUnlink ?p True]) @ evs"
      and f: "\<forall>e \<in> set evs. is_file_event e"
      and r: "fst (delete_contents cp items (remove_entry fs cp item) (h @ [EUnlink ?p True]))
                \<longleftrightarrow> (\<forall>e \<in> set evs. \<not> failed_deletion e)"
      by blast
    show ?thesis
      apply (rule exI [of _ "[EUnlink ?p True] @ evs"])
      using unlink_ok e f r by (simp add: Let_def failed_deletion_def)
  next
    case unlink_fails
    show ?thesis
      apply (rule exI [of _ "[EUnlink ?p False]"])
      using unlink_fails by (simp add: Let_def failed_deletion_def)
  next
    case rmtree_ok
    from Cons.IH [of "remove_entry fs cp item" "h @ [ERmtree ?p True]"]
    obtain evs where
      e: "snd (snd (delete_contents cp items (remove_entry fs cp item) (h @ [ERmtree ?p True])))
            = (h @ [ERmtree ?p True]) @ evs"
      and f: "\<forall>e \<in> set evs. is_file_event e"
      and r: "fst (delete_contents cp items (remove_entry fs cp item) (h @ [ERmtree ?p True]))
                \<longleftrightarrow> (\<forall>e \<in> set evs. \<not> failed_deletion e)"
      by blast
    show ?thesis
      apply (rule exI [of _ "[ERmtree ?p True] @ evs"])
      using rmtree_ok e f r by (simp add: Let_def failed_deletion_def)
  next
    case rmtree_fails
    show ?thesis
      apply (rule exI [of _ "[ERmtree ?p False]"])
      using rmtree_fails by (simp add: Let_def failed_deletion_def)
  next
    case skipped
    with Cons.IH [of fs h] show ?thesis by (simp add: Let_def)
  qed
qed

lemma file_event_props:
  "is_file_event e \<Longrightarrow> invoked_by_shell e \<and> \<not> is_popen e \<and> \<not> raised_event e
                          \<and> (\<forall>c r. e \<noteq> ERun c r)"
  by (cases e) simp_all

text \<open>
  A restore resolves the volume, then kills the container, and only after a kill that
  returned \<open>True\<close> lists and deletes; it runs the restore command only after a wipe in
  which no deletion failed.
\<close>

lemma restore_server_shape:
  "\<exists>kill files run.
     snd (snd (restore_server w sid snap fs h)) =
       h @ [EGlob (volumes_path w @ ''/'' @ sid @ ''*'')
              (glob_glob w h (volumes_path w @ ''/'' @ sid @ ''*''))] @ kill @ files @ run \<and>
     (\<forall>e \<in> set kill. \<not> is_file_event e \<and> invoked_by_shell e \<and>
        (\<forall>c r. e = ERun c r \<longrightarrow> (\<exists>name. c = ShellString (''docker '' @ ''kill'' @ '' '' @ name)))) \<and>
     (\<forall>e \<in> set files. is_file_event e) \<and>
     (files \<noteq> [] \<longrightarrow>
        (\<exists>cp. fst (get_container_path w sid h) = Inr cp \<and>
              fst (manage_container w sid ''kill'' (snd (get_container_path w sid h)))
                = Returned True)) \<and>
     (run = [] \<or>
        (\<exists>cp r. run = [ERun (ShellString (restore_shell_cmd w sid snap cp)) r] \<and>
                fst (get_container_path w sid h) = Inr cp \<and>
                files \<noteq> [] \<and> (\<forall>e \<in> set files. \<not> failed_deletion e) \<and>
                fst (restore_server w sid snap fs h) = run_outcome r)) \<and>
     ((\<exists>e \<in> set files. failed_deletion e) \<longrightarrow>
        fst (restore_server w sid snap fs h) = Returned False \<and> run = [])"
proof -
  let ?g = "EGlob (volumes_path w @ ''/'' @ sid @ ''*'')
            (glob_glob w h (volumes_path w @ ''/'' @ sid @ ''*''))"
  obtain res h1 where g: "get_container_path w sid h = (res, h1)"
    by (cases "get_container_path w sid h")
  with get_container_path_history [of w sid h] have h1: "h1 = h @ [?g]" by simp
  show ?thesis
  proof (cases res)
    case (Inl e)
    then have "snd (snd (restore_server w sid snap fs h)) = h @ [?g] @ [] @ [] @ []"
      using g h1 by (simp add: restore_server_def)
    then show ?thesis by (intro exI [of _ "[]"]) simp
  next
    case (Inr cp)
    obtain kres h2 where mc: "manage_container w sid ''kill'' h1 = (kres, h2)"
      by (cases "manage_container w sid ''kill'' h1")
    from manage_container_events [of w sid "''kill''" h1] mc
    obtain kill where h2: "h2 = h1 @ kill"
      and nk: "\<forall>e \<in> set kill. \<not> is_file_event e \<and> invoked_by_shell e \<and>
        (\<forall>c r. e = ERun c r \<longrightarrow> (\<exists>name. c = ShellString (''docker '' @ ''kill'' @ '' '' @ name)))"
      by auto
    have stop_here: ?thesis
      if "snd (snd (restore_server w sid snap fs h)) = h2"
    proof -
      from that have e: "snd (snd (restore_server w sid snap fs h)) = h @ [?g] @ kill @ [] @ []"
        by (simp add: h2 h1)
      show ?thesis
        apply (rule exI [of _ kill], rule exI [of _ "[]"], rule exI [of _ "[]"])
        using nk e by simp
    qed
    show ?thesis
    proof (cases "kres = Returned True")
      case False
      then have "snd (snd (restore_server w sid snap fs h)) = h2"
        using g Inr mc by (cases kres) (auto simp: restore_server_def split: bool.splits)
      then show ?thesis by (rule stop_here)
    next
      case True
      have killed: "fst (get_container_path w sid h) = Inr cp \<and>
              fst (manage_container w sid ''kill'' (snd (get_container_path w sid h)))
                = Returned True"
        using g Inr mc True by simp
      show ?thesis
      proof (cases "os_listdir fs cp")
        case None
        let ?files = "[EListdir cp None]"
        have r: "restore_server w sid snap fs h = (Raised, fs, h2 @ ?files)"
          using g Inr mc True None by (simp add: restore_server_def)
        then have e: "snd (snd (restore_server w sid snap fs h)) = h @ [?g] @ kill @ ?files @ []"
          by (simp add: h2 h1)
        show ?thesis
          apply (rule exI [of _ kill], rule exI [of _ ?files], rule exI [of _ "[]"])
          using nk killed e by (simp add: failed_deletion_def)
      next
        case (Some items)
        let ?l = "EListdir cp (Some items)"
        obtain ok fs' h3 where d: "delete_contents cp items fs (h2 @ [?l]) = (ok, fs', h3)"
          by (cases "delete_contents cp items fs (h2 @ [?l])")
        from delete_contents_events [of cp items fs "h2 @ [?l]"] d
        obtain dels where h3: "h3 = (h2 @ [?l]) @ dels"
          and fd: "\<forall>e \<in> set dels. is_file_event e"
          and okd: "ok \<longleftrightarrow> (\<forall>e \<in> set dels. \<not> failed_deletion e)"
          by auto
        let ?files = "[?l] @ dels"
        have ff: "\<forall>e \<in> set ?files. is_file_event e" using fd by simp
        have fl: "\<not> failed_deletion ?l" by (simp add: failed_deletion_def)
        show ?thesis
        proof (cases ok)
          case False
          then have r: "restore_server w sid snap fs h = (Returned False, fs', h3)"
            using g Inr mc True Some d by (simp add: restore_server_def)
          then have e: "snd (snd (restore_server w sid snap fs h)) = h @ [?g] @ kill @ ?files @ []"
            by (simp add: h3 h2 h1)
          show ?thesis
            apply (rule exI [of _ kill], rule exI [of _ ?files], rule exI [of _ "[]"])
            using nk killed ff r e by simp
        next
          case wiped: True
          let ?cmd = "restore_shell_cmd w sid snap cp"
          let ?r = "subprocess_run w h3 ?cmd"
          let ?run = "[ERun (ShellString ?cmd) ?r]"
          have r: "restore_server w sid snap fs h = (run_outcome ?r, fs', h3 @ ?run)"
            using g Inr mc True Some d wiped
            by (simp add: restore_server_def Let_def run_command_eq restore_shell_cmd_def)
          then have s: "snd (snd (restore_server w sid snap fs h))
                          = h @ [?g] @ kill @ ?files @ ?run"
            by (simp add: h3 h2 h1)
          have clean: "\<forall>e \<in> set ?files. \<not> failed_deletion e"
            using wiped okd fl by simp
          show ?thesis
            apply (rule exI [of _ kill], rule exI [of _ ?files], rule exI [of _ ?run])
            apply (intro conjI)
                 apply (rule s)
                apply (rule nk)
               apply (rule ff)
            using killed apply blast
            using killed clean r apply simp
            using clean apply blast
            done
        qed
      qed
    qed
  qed
qed


section \<open>How commands are handed to the operating system\<close>

lemma restore_shell_cmd_eq:
  "restore_shell_cmd w sid snap cp =
      ''proxmox-backup-client restore '' @ snap @ '' '' @ dq @ sid @ ''.ppxar'' @ dq
        @ '' '' @ dq @ cp @ dq
        @ '' --repository '' @ sq @ pbs_repository w @ sq
        @ '' --ns '' @ pbs_namespace w"
  by (simp add: restore_shell_cmd_def restore_cmd_def py_join_Cons)

lemma list_snapshots_history:
  "snd (list_snapshots w sid h) =
     h @ [EPopen (ShellString (''proxmox-backup-client snapshots --repository ''
                     @ sq @ pbs_repository w @ sq @ '' --ns '' @ pbs_namespace w))
            (popen_communicate w h
               (''proxmox-backup-client snapshots --repository ''
                  @ sq @ pbs_repository w @ sq @ '' --ns '' @ pbs_namespace w))]"
  by (simp add: list_snapshots_def snapshots_cmd_def py_join_Cons Let_def
        split: popen_result.splits)

lemma manage_container_commands:
  "\<exists>evs. snd (manage_container w sid action h) =
            h @ ECheckOutput (ShellString
                   (''docker ps -a --format '' @ sq @ ''{{.Names}}'' @ sq @ '' | grep ''
                      @ sq @ ''^'' @ sid @ sq))
                  (check_output w h (list_containers_cmd sid)) # evs
        \<and> (evs = [] \<or> (\<exists>name r. evs = [ERun (ShellString (''docker '' @ action @ '' '' @ name)) r]))"
  by (cases "lookup_name (check_output w h (list_containers_cmd sid))")
     (simp_all add: manage_container_eq run_command_eq Let_def list_containers_cmd_def)

text \<open>
  C5, as the code has it. Every process that \<open>backup_server\<close>, \<open>restore_server\<close>,
  \<open>manage_container\<close>, \<open>run_command\<close> and \<open>list_snapshots\<close> start is started from one
  string handed to the shell (\<open>shell=True\<close>), never from an argument vector. The strings
  are: for the container lookup, the \<open>docker ps\<close> pipeline with the serverID inside a
  single-quoted \<open>grep\<close> pattern; for a container action, \<open>docker\<close>, the action and the
  name; for the backup, the restore and the listing of snapshots, the arguments joined
  with single spaces, with double quotes written around the archive specification and the
  volume path and single quotes around the repository, and nothing quoted otherwise.
\<close>

theorem commands_are_shell_strings:
  "(\<forall>e \<in> set (drop (length h) (snd (backup_server w sid config h))). invoked_by_shell e)
   \<and> (\<forall>e \<in> set (drop (length h) (snd (snd (restore_server w sid snap fs h)))).
         invoked_by_shell e)
   \<and> (\<forall>c r. EPopen c r \<in> set (drop (length h) (snd (backup_server w sid config h)))
         \<longrightarrow> (\<exists>cp. c = ShellString
                 (''proxmox-backup-client backup '' @ dq @ sid @ ''.pxar:'' @ cp @ dq
                    @ '' --repository '' @ sq @ pbs_repository w @ sq
                    @ '' --ns '' @ pbs_namespace w
                    @ '' --backup-type host --change-detection-mode metadata --backup-id ''
                    @ sid
                    @ concat (map (\<lambda>e. '' --exclude '' @ os_path_join cp e)
                                (get_ignore_paths config)))))
   \<and> (\<forall>c r. ERun c r \<in> set (drop (length h) (snd (snd (restore_server w sid snap fs h))))
         \<longrightarrow> (\<exists>name. c = ShellString (''docker kill '' @ name))
             \<or> (\<exists>cp. c = ShellString
                   (''proxmox-backup-client restore '' @ snap @ '' '' @ dq @ sid @ ''.ppxar''
                      @ dq @ '' '' @ dq @ cp @ dq
                      @ '' --repository '' @ sq @ pbs_repository w @ sq
                      @ '' --ns '' @ pbs_namespace w)))
   \<and> (\<exists>evs. snd (manage_container w sid action h) =
               h @ ECheckOutput (ShellString
                      (''docker ps -a --format '' @ sq @ ''{{.Names}}'' @ sq @ '' | grep ''
                         @ sq @ ''^'' @ sid @ sq))
                     (check_output w h (list_containers_cmd sid)) # evs
           \<and> (evs = [] \<or> (\<exists>name r. evs =
                  [ERun (ShellString (''docker '' @ action @ '' '' @ name)) r])))
   \<and> snd (run_command w cmd h) = h @ [ERun (ShellString cmd) (subprocess_run w h cmd)]
   \<and> snd (list_snapshots w sid h) =
        h @ [EPopen (ShellString (''proxmox-backup-client snapshots --repository ''
                        @ sq @ pbs_repository w @ sq @ '' --ns '' @ pbs_namespace w))
               (popen_communicate w h
                  (''proxmox-backup-client snapshots --repository ''
                     @ sq @ pbs_repository w @ sq @ '' --ns '' @ pbs_namespace w))]"
proof -
  from backup_server_shape [of w sid config h]
  obtain evs where e: "snd (backup_server w sid config h) = h @ evs"
    and sh: "\<forall>e \<in> set evs. invoked_by_shell e \<and> \<not> is_file_event e"
    and d: "(fst (backup_server w sid config h) \<noteq> Returned True \<and> (\<forall>e \<in> set evs. \<not> is_popen e) \<and>
       (fst (backup_server w sid config h) = Raised \<longleftrightarrow> (\<exists>e \<in> set evs. raised_event e)))
      \<or> (\<exists>pre cp r post.
            evs = pre @ [EPopen (ShellString (backup_shell_cmd w sid cp config)) r] @ post \<and>
            fst (get_container_path w sid h) = Inr cp \<and>
            (\<forall>e \<in> set pre. \<not> is_popen e \<and> \<not> raised_event e) \<and>
            (\<forall>e \<in> set post. \<not> is_popen e) \<and>
            fst (backup_server w sid config h) =
              (if \<exists>e \<in> set post. raised_event e then Raised else popen_outcome r))"
    by blast
  have new: "drop (length h) (snd (backup_server w sid config h)) = evs" by (simp add: e)
  have 1: "\<forall>e \<in> set (drop (length h) (snd (backup_server w sid config h))). invoked_by_shell e"
    unfolding new using sh by blast
  have 3: "\<forall>c r. EPopen c r \<in> set (drop (length h) (snd (backup_server w sid config h)))
         \<longrightarrow> (\<exists>cp. c = ShellString (backup_shell_cmd w sid cp config))"
    unfolding new
  proof (intro allI impI)
    fix c r assume m: "EPopen c r \<in> set evs"
    from d show "\<exists>cp. c = ShellString (backup_shell_cmd w sid cp config)"
    proof
      assume "fst (backup_server w sid config h) \<noteq> Returned True \<and>
        (\<forall>e \<in> set evs. \<not> is_popen e) \<and>
        (fst (backup_server w sid config h) = Raised \<longleftrightarrow> (\<exists>e \<in> set evs. raised_event e))"
      with m show ?thesis by force
    next
      assume "\<exists>pre cp r post.
            evs = pre @ [EPopen (ShellString (backup_shell_cmd w sid cp config)) r] @ post \<and>
            fst (get_container_path w sid h) = Inr cp \<and>
            (\<forall>e \<in> set pre. \<not> is_popen e \<and> \<not> raised_event e) \<and>
            (\<forall>e \<in> set post. \<not> is_popen e) \<and>
            fst (backup_server w sid config h) =
              (if \<exists>e \<in> set post. raised_event e then Raised else popen_outcome r)"
      then obtain pre cp r' post where
        evs: "evs = pre @ [EPopen (ShellString (backup_shell_cmd w sid cp config)) r'] @ post"
        and n1: "\<forall>e \<in> set pre. \<not> is_popen e \<and> \<not> raised_event e"
        and n2: "\<forall>e \<in> set post. \<not> is_popen e"
        by blast
      from m evs have "EPopen c r \<in> set pre \<or> EPopen c r \<in> set post
                     \<or> c = ShellString (backup_shell_cmd w sid cp config)"
        by auto
      with n1 n2 have "c = ShellString (backup_shell_cmd w sid cp config)" by force
      then show ?thesis by blast
    qed
  qed
  from restore_server_shape [of w sid snap fs h]
  obtain kill files run where
    re: "snd (snd (restore_server w sid snap fs h)) =
       h @ [EGlob (volumes_path w @ ''/'' @ sid @ ''*'')
              (glob_glob w h (volumes_path w @ ''/'' @ sid @ ''*''))] @ kill @ files @ run"
    and rk: "\<forall>e \<in> set kill. \<not> is_file_event e \<and> invoked_by_shell e \<and>
        (\<forall>c r. e = ERun c r \<longrightarrow> (\<exists>name. c = ShellString (''docker '' @ ''kill'' @ '' '' @ name)))"
    and rf: "\<forall>e \<in> set files. is_file_event e"
    and rr: "run = [] \<or>
        (\<exists>cp r. run = [ERun (ShellString (restore_shell_cmd w sid snap cp)) r] \<and>
                fst (get_container_path w sid h) = Inr cp \<and>
                files \<noteq> [] \<and> (\<forall>e \<in> set files. \<not> failed_deletion e) \<and>
                fst (restore_server w sid snap fs h) = run_outcome r)"
    by blast
  let ?g = "EGlob (volumes_path w @ ''/'' @ sid @ ''*'')
              (glob_glob w h (volumes_path w @ ''/'' @ sid @ ''*''))"
  have rnew: "drop (length h) (snd (snd (restore_server w sid snap fs h)))
                = [?g] @ kill @ files @ run"
    by (simp add: re)
  have runs: "\<forall>e \<in> set run. invoked_by_shell e \<and>
        (\<forall>c r. e = ERun c r \<longrightarrow> (\<exists>cp. c = ShellString (restore_shell_cmd w sid snap cp)))"
    using rr by auto
  have 2: "\<forall>e \<in> set (drop (length h) (snd (snd (restore_server w sid snap fs h)))).
         invoked_by_shell e"
    unfolding rnew using rk rf runs file_event_props by auto
  have 4: "\<forall>c r. ERun c r \<in> set (drop (length h) (snd (snd (restore_server w sid snap fs h))))
         \<longrightarrow> (\<exists>name. c = ShellString (''docker kill '' @ name))
             \<or> (\<exists>cp. c = ShellString (restore_shell_cmd w sid snap cp))"
    unfolding rnew
  proof (intro allI impI)
    fix c r assume "ERun c r \<in> set ([?g] @ kill @ files @ run)"
    then consider "ERun c r \<in> set kill" | "ERun c r \<in> set files" | "ERun c r \<in> set run"
      by auto
    then show "(\<exists>name. c = ShellString (''docker kill '' @ name))
             \<or> (\<exists>cp. c = ShellString (restore_shell_cmd w sid snap cp))"
    proof cases
      case 1
      with rk show ?thesis by fastforce
    next
      case 2
      with rf file_event_props show ?thesis by blast
    next
      case 3
      with runs show ?thesis by blast
    qed
  qed
  show ?thesis
    using 1 2 3 4 manage_container_commands [of w sid action h]
      list_snapshots_history [of w sid h]
    unfolding backup_shell_cmd_eq restore_shell_cmd_eq
    by (simp add: run_command_eq)
qed

text \<open>
  The sample backup with shutdown: seven calls, each of them through the shell.
\<close>

theorem commands_are_shell_strings_witness:
  "list_all invoked_by_shell
     (snd (backup_server (demo_world (PopenExit 0 [] []) (Exited 0) found_alpha (Exited 0))
             ''alpha'' shutdown_config []))
   \<and> length (snd (backup_server (demo_world (PopenExit 0 [] []) (Exited 0) found_alpha (Exited 0))
                ''alpha'' shutdown_config [])) = 7"
proof -
  let ?w = "demo_world (PopenExit 0 [] []) (Exited 0) found_alpha (Exited 0)"
  from commands_are_shell_strings [of "[]" ?w "''alpha''" shutdown_config]
  have "list_all invoked_by_shell (snd (backup_server ?w ''alpha'' shutdown_config []))"
    by (simp add: list_all_iff)
  moreover have "length (snd (backup_server ?w ''alpha'' shutdown_config [])) = 7"
    by (simp add: demo_simps)
  ultimately show ?thesis by simp
qed

text \<open>
  The sample backup does not pass argument vectors; and since the arguments are joined
  into one string, one ignore path with spaces in it yields the very command that two
  ignore paths yield.
\<close>

theorem argument_vector_counterexample:
  "\<not> list_all passes_argument_vector
        (snd (backup_server (demo_world (PopenExit 0 [] []) (Exited 0) found_alpha (Exited 0))
                ''alpha'' empty_config []))
   \<and> backup_shell_cmd (demo_world (PopenExit 0 [] []) (Exited 0) found_alpha (Exited 0))
        ''alpha'' ''/data/alpha-world''
        (empty_config\<lparr>cfg_ignore_paths := Some [''a --exclude /data/alpha-world/b'']\<rparr>)
     = backup_shell_cmd (demo_world (PopenExit 0 [] []) (Exited 0) found_alpha (Exited 0))
        ''alpha'' ''/data/alpha-world''
        (empty_config\<lparr>cfg_ignore_paths := Some [''a'', ''b'']\<rparr>)"
  by (simp add: demo_simps passes_argument_vector_def process_cmdline_def os_path_join_def)


section \<open>One-shot backup of a server missing from the configuration\<close>

text \<open>
  C10, as the code has it. For a serverID that is given and absent from the servers of
  the configuration, the one-shot backup runs \<open>backup_server\<close> on the empty settings
  (shutdown exactly when the \<open>--shutdown\<close> flag is given, no ignore paths); nothing
  reports an unknown server, and the exit status is that of the backup: it is 0 exactly
  when a backup command ran and exited with status zero and no call of \<open>subprocess\<close>
  raised, and the program ends with an uncaught exception exactly when such a call raised.
\<close>

theorem cli_backup_unknown_server:
  assumes absent: "map_of servers sid = None"
    and given: "sid \<noteq> []"
  shows "main_backup w servers (Some sid) flag h =
           (exit_of (fst (backup_server w sid (cli_config flag) h)),
            snd (backup_server w sid (cli_config flag) h))
       \<and> get_shutdown (cli_config flag) = flag
       \<and> get_ignore_paths (cli_config flag) = []
       \<and> (fst (main_backup w servers (Some sid) flag h) = Exit 0
            \<longleftrightarrow> (\<exists>cmd out err. EPopen cmd (PopenExit 0 out err)
                   \<in> set (drop (length h) (snd (main_backup w servers (Some sid) flag h))))
                \<and> (\<forall>e \<in> set (drop (length h) (snd (main_backup w servers (Some sid) flag h))).
                      \<not> raised_event e))
       \<and> (fst (main_backup w servers (Some sid) flag h) = Uncaught
            \<longleftrightarrow> (\<exists>e \<in> set (drop (length h) (snd (main_backup w servers (Some sid) flag h))).
                      raised_event e))"
proof -
  obtain r h' where b: "backup_server w sid (cli_config flag) h = (r, h')"
    by (cases "backup_server w sid (cli_config flag) h")
  have m: "main_backup w servers (Some sid) flag h = (exit_of r, h')"
  proof (cases r)
    case (Returned v)
    then show ?thesis
      using absent given b
      by (cases v) (simp_all add: main_backup_def cli_config_def exit_of_def Let_def)
  next
    case Raised
    then show ?thesis
      using absent given b
      by (simp add: main_backup_def cli_config_def exit_of_def Let_def)
  qed
  have e: "exit_of r = Exit 0 \<longleftrightarrow> r = Returned True"
    "exit_of r = Uncaught \<longleftrightarrow> r = Raised"
    by (cases r; auto simp: exit_of_def split: bool.splits)+
  from backup_server_result [of w sid "cli_config flag" h] b
  have i: "r = Returned True \<longleftrightarrow>
      (\<exists>cmd out err. EPopen cmd (PopenExit 0 out err) \<in> set (drop (length h) h'))
      \<and> (\<forall>e \<in> set (drop (length h) h'). \<not> raised_event e)"
    and j: "r = Raised \<longleftrightarrow> (\<exists>e \<in> set (drop (length h) h'). raised_event e)"
    by simp_all
  have s: "get_shutdown (cli_config flag) = flag"
    by (simp add: cli_config_def get_shutdown_def empty_config_def)
  have g: "get_ignore_paths (cli_config flag) = []"
    by (simp add: cli_config_def get_ignore_paths_def empty_config_def)
  from m b e i j s g show ?thesis by simp
qed

theorem cli_backup_unknown_server_witness:
  "map_of [(''beta'', demo_settings ''0 3 * * *'')] ''alpha'' = None
   \<and> ''alpha'' \<noteq> []
   \<and> main_backup (demo_world (PopenExit 0 [] []) (Exited 0) found_alpha (Exited 0))
        [(''beta'', demo_settings ''0 3 * * *'')] (Some ''alpha'') False []
      = (Exit 0,
         [EGlob ''/data/alpha*'' [''/data/alpha-world''],
          EPopen (ShellString (backup_shell_cmd
                    (demo_world (PopenExit 0 [] []) (Exited 0) found_alpha (Exited 0))
                    ''alpha'' ''/data/alpha-world'' empty_config))
            (PopenExit 0 [] [])])"
proof -
  let ?w = "demo_world (PopenExit 0 [] []) (Exited 0) found_alpha (Exited 0)"
  have absent: "map_of [(''beta'', demo_settings ''0 3 * * *'')] ''alpha'' = None" by simp
  have given: "''alpha'' \<noteq> []" by simp
  have b: "backup_server ?w ''alpha'' (cli_config False) [] =
      (Returned True,
       [EGlob ''/data/alpha*'' [''/data/alpha-world''],
        EPopen (ShellString (backup_shell_cmd ?w ''alpha'' ''/data/alpha-world'' empty_config))
          (PopenExit 0 [] [])])"
    by (simp add: demo_simps cli_config_def)
  from cli_backup_unknown_server [OF absent given, of ?w False "[]"] b
  show ?thesis by (simp add: exit_of_def)
qed

text \<open>
  A volume directory that resolves uniquely is not enough for the command line to succeed:
  here the backup command exits with status 1.
\<close>

theorem cli_backup_unknown_server_counterexample:
  "fst (get_container_path (demo_world (PopenExit 1 [] []) (Exited 0) found_alpha (Exited 0))
          ''alpha'' [])
       = Inr ''/data/alpha-world''
   \<and> map_of [(''beta'', demo_settings ''0 3 * * *'')] ''alpha'' = None
   \<and> fst (main_backup (demo_world (PopenExit 1 [] []) (Exited 0) found_alpha (Exited 0))
             [(''beta'', demo_settings ''0 3 * * *'')] (Some ''alpha'') False []) = Exit 1"
  by (simp add: demo_simps main_backup_def)


end
